theory Spec2Isabelle
  imports Complex_Main
begin

chapter \<open>A WebGL prototype: cameras, an instanced particle field and its frame loop\<close>

text \<open>
  The sources are the camera module and two variants of \<open>index.ts\<close>: one builds the
  particle field from the vertices of a loaded reference model, the other from random
  offsets around a fixed triangle. Both are embedded here, with the functions of the
  second variant carrying the suffix \<open>_tri\<close> and those of the first the suffix \<open>_obj\<close>
  where they differ. Handlers take the state of the application and return the new
  state; a handler that can throw returns the exception, if any, with the state reached.
\<close>

section \<open>JavaScript numbers and values\<close>

text \<open>
  A JavaScript number is modelled as an idealised double: \<open>Num r\<close> is a finite number
  with exact (real) arithmetic, so the rounding and overflow of double arithmetic are
  outside the model; the two infinities and \<open>NaN\<close> are values of their own, because the
  program can produce them (a division by a zero window height, a product with
  \<open>undefined\<close>). \<open>Undefined\<close> is what reading an array past its end yields. The
  conversion to single precision that a Float32Array makes is modelled, below.
\<close>

datatype jsval = Undefined | NaN | PosInf | NegInf | Num real

datatype js_error = TypeError

fun ToNumber :: "jsval \<Rightarrow> jsval" where
  "ToNumber Undefined = NaN"
| "ToNumber v = v"

fun sign_of :: "jsval \<Rightarrow> int" where
  "sign_of PosInf = 1"
| "sign_of NegInf = - 1"
| "sign_of (Num r) = (if 0 < r then 1 else if r < 0 then - 1 else 0)"
| "sign_of v = 0"

definition signed_infinity :: "int \<Rightarrow> jsval" where
  "signed_infinity k = (if k = 0 then NaN else if 0 < k then PosInf else NegInf)"

fun times_number :: "jsval \<Rightarrow> jsval \<Rightarrow> jsval" where
  "times_number NaN b = NaN"
| "times_number a NaN = NaN"
| "times_number (Num a) (Num b) = Num (a * b)"
| "times_number a b = signed_infinity (sign_of a * sign_of b)"

text \<open>The operator \<open>*\<close>: both operands are converted to numbers first.\<close>

definition js_mul :: "jsval \<Rightarrow> jsval \<Rightarrow> jsval" where
  "js_mul a b = times_number (ToNumber a) (ToNumber b)"

fun divide_number :: "jsval \<Rightarrow> jsval \<Rightarrow> jsval" where
  "divide_number NaN b = NaN"
| "divide_number a NaN = NaN"
| "divide_number (Num a) (Num b) =
     (if b = 0 then signed_infinity (sign_of (Num a)) else Num (a / b))"
| "divide_number (Num a) b = Num 0"
| "divide_number a (Num b) = signed_infinity (sign_of a * (if b < 0 then - 1 else 1))"
| "divide_number a b = NaN"

text \<open>The operator \<open>/\<close>: a zero divisor gives an infinity, or \<open>NaN\<close> for \<open>0 / 0\<close>.\<close>

definition js_div :: "jsval \<Rightarrow> jsval \<Rightarrow> jsval" where
  "js_div a b = divide_number (ToNumber a) (ToNumber b)"

text \<open>\<open>xs[i]\<close> on an ordinary array: \<open>None\<close> stands for \<open>undefined\<close>.\<close>

definition js_index :: "'a list \<Rightarrow> nat \<Rightarrow> 'a option" where
  "js_index xs i = (if i < length xs then Some (xs ! i) else None)"

text \<open>\<open>a[i]\<close> on a typed array of numbers.\<close>

definition typed_index :: "real list \<Rightarrow> nat \<Rightarrow> jsval" where
  "typed_index a i = (if i < length a then Num (a ! i) else Undefined)"

subsection \<open>Storing numbers in a Float32Array\<close>

text \<open>
  \<open>new Float32Array(xs)\<close> converts every element to a number and stores the nearest
  single-precision value, ties going to the even significand. For a number \<open>x\<close> other
  than zero the exponent is that of its binade, not below -126 (subnormal numbers share
  the quantum \<open>2^-149\<close>); \<open>x\<close> is rounded to a multiple of the quantum of 24 bits, and a
  result of magnitude \<open>2^128\<close> is an infinity. The sign of a zero is not modelled.
\<close>

definition pow2 :: "int \<Rightarrow> real" where
  "pow2 k = (if 0 \<le> k then 2 ^ nat k else 1 / 2 ^ nat (- k))"

definition round_half_even :: "real \<Rightarrow> int" where
  "round_half_even y =
     (let f = \<lfloor>y\<rfloor>
      in if y - of_int f < 1 / 2 then f
         else if 1 / 2 < y - of_int f then f + 1
         else if even f then f else f + 1)"

definition float32_exponent :: "real \<Rightarrow> int" where
  "float32_exponent x = max \<lfloor>log 2 \<bar>x\<bar>\<rfloor> (- 126)"

definition Math_fround :: "real \<Rightarrow> jsval" where
  "Math_fround x =
     (if x = 0 then Num 0
      else (let q = pow2 (float32_exponent x - 23);
                r = of_int (round_half_even (x / q)) * q
            in if 2 ^ 128 \<le> \<bar>r\<bar> then (if 0 < x then PosInf else NegInf) else Num r))"

fun to_float32 :: "jsval \<Rightarrow> jsval" where
  "to_float32 (Num x) = Math_fround x"
| "to_float32 Undefined = NaN"
| "to_float32 v = v"

definition Float32Array :: "jsval list \<Rightarrow> jsval list" where
  "Float32Array xs = map to_float32 xs"


section \<open>Vectors of the rendering library\<close>

datatype Vector3 = Vector3 (v3_x: real) (v3_y: real) (v3_z: real)

datatype Vector4 = Vector4 (v4_x: real) (v4_y: real) (v4_z: real) (v4_w: real)

text \<open>
  Modelled from the spec: \<open>Vector4.length\<close> and \<open>Vector4.normalize\<close> belong to the
  rendering library, which is not part of the sources. The spec calls the operation a
  normalisation: the vector is divided by its Euclidean length (multiplied by the
  reciprocal of the length), and a vector of length zero is divided by one.
\<close>

definition Vector4_length :: "Vector4 \<Rightarrow> real" where
  "Vector4_length v =
     sqrt (v4_x v * v4_x v + v4_y v * v4_y v + v4_z v * v4_z v + v4_w v * v4_w v)"

definition Vector4_multiplyScalar :: "Vector4 \<Rightarrow> real \<Rightarrow> Vector4" where
  "Vector4_multiplyScalar v s = Vector4 (v4_x v * s) (v4_y v * s) (v4_z v * s) (v4_w v * s)"

definition Vector4_normalize :: "Vector4 \<Rightarrow> Vector4" where
  "Vector4_normalize v =
     (let l = Vector4_length v; s = (if l = 0 then 1 else l)
      in Vector4_multiplyScalar v (1 / s))"


section \<open>The camera module\<close>

text \<open>
  Modelled from the spec: the projection matrix of the library's perspective camera is
  a function of field of view, aspect, near and far plane, refreshed by
  \<open>updateProjectionMatrix\<close>. It is represented by the four values it was last computed
  from. \<open>lookAt\<close> is represented by the target it was last given.
\<close>

datatype projection = Projection real jsval real real

record PerspectiveCamera =
  fov :: real
  aspect :: jsval
  near :: real
  far :: real
  position :: Vector3
  lookAt_target :: "Vector3 option"
  projectionMatrix :: projection

definition updateProjectionMatrix :: "PerspectiveCamera \<Rightarrow> PerspectiveCamera" where
  "updateProjectionMatrix c =
     c\<lparr>projectionMatrix := Projection (fov c) (aspect c) (near c) (far c)\<rparr>"

definition new_PerspectiveCamera ::
  "real \<Rightarrow> jsval \<Rightarrow> real \<Rightarrow> real \<Rightarrow> PerspectiveCamera" where
  "new_PerspectiveCamera f a n fr =
     updateProjectionMatrix
       \<lparr>fov = f, aspect = a, near = n, far = fr, position = Vector3 0 0 0,
        lookAt_target = None, projectionMatrix = Projection f a n fr\<rparr>"

definition position_set :: "PerspectiveCamera \<Rightarrow> real \<Rightarrow> real \<Rightarrow> real \<Rightarrow> PerspectiveCamera" where
  "position_set c a b d = c\<lparr>position := Vector3 a b d\<rparr>"

definition position_z_assign :: "PerspectiveCamera \<Rightarrow> real \<Rightarrow> PerspectiveCamera" where
  "position_z_assign c d = c\<lparr>position := Vector3 (v3_x (position c)) (v3_y (position c)) d\<rparr>"

definition lookAt :: "PerspectiveCamera \<Rightarrow> Vector3 \<Rightarrow> PerspectiveCamera" where
  "lookAt c t = c\<lparr>lookAt_target := Some t\<rparr>"

definition cameras_fov :: real where "cameras_fov = 50"
definition cameras_near :: real where "cameras_near = 1"
definition cameras_far :: real where "cameras_far = 10"

definition cameras_ratio :: "nat \<Rightarrow> nat \<Rightarrow> jsval" where
  "cameras_ratio innerWidth innerHeight =
     js_div (Num (real innerWidth)) (Num (real innerHeight))"

definition zoom :: "PerspectiveCamera \<Rightarrow> real \<Rightarrow> PerspectiveCamera" where
  "zoom camera v =
     lookAt (position_z_assign (position_set camera (1 * v) (0.75 * v) (1 * v)) 2)
       (Vector3 0 0 0)"

record cameras =
  dev :: PerspectiveCamera
  main :: PerspectiveCamera

text \<open>The module as a whole: both cameras are constructed, then zoomed by 8 and by 3.\<close>

definition cameras_module :: "nat \<Rightarrow> nat \<Rightarrow> cameras" where
  "cameras_module innerWidth innerHeight =
     (let ratio = cameras_ratio innerWidth innerHeight;
          dev0 = new_PerspectiveCamera cameras_fov ratio cameras_near cameras_far;
          main0 = new_PerspectiveCamera cameras_fov ratio cameras_near cameras_far
      in \<lparr>dev = zoom dev0 8, main = zoom main0 3\<rparr>)"


section \<open>Scene graph, renderer and application state\<close>

text \<open>
  The instanced geometry: every attribute is a Float32Array, so it holds the values
  the builder pushed after their conversion to single precision.
\<close>

record InstancedBufferGeometry =
  maxInstancedCount :: nat
  attr_position :: "jsval list"
  attr_offset :: "jsval list"
  attr_color :: "jsval list"
  attr_orientationStart :: "jsval list"
  attr_orientationEnd :: "jsval list"

record RawShaderMaterial =
  uniform_time :: real
  uniform_sineTime :: real
  vertexShader :: string
  fragmentShader :: string
  transparent :: bool

text \<open>
  A child of the scene. \<open>TargetObject\<close> is the loaded reference model: the scene holds
  a reference to the object kept in the field \<open>targetObject\<close> of the application. Every
  node has a rotation; only a mesh has a material with shader uniforms.
\<close>

datatype node_kind =
    GridHelper nat nat
  | AxisHelper
  | Light string
  | TargetObject
  | Mesh InstancedBufferGeometry RawShaderMaterial

record node =
  kind :: node_kind
  rotation_y :: real

text \<open>A child mesh of the reference model: its position attribute and its material.\<close>

record model_child =
  position_array :: "real list"
  wireframe :: bool

record Group =
  scale :: Vector3
  children :: "model_child list"

type_synonym rect = "real \<times> real \<times> real \<times> real"

datatype camera_name = Dev | Main

text \<open>
  The renderer: the rectangles and clear colour last set, the size last set, and the
  draw calls issued so far (camera, viewport and scissor in force).
\<close>

record WebGLRenderer =
  viewport :: rect
  scissor :: rect
  clearColor :: nat
  renderer_size :: "nat \<times> nat"
  rendered :: "(camera_name \<times> rect \<times> rect) list"

datatype console_entry = Warn string | Log string

text \<open>
  What the program takes from modules that are not part of the sources and from the
  page: the build constants, the light set, the random source (\<open>Math_random env k\<close> is
  the result of the \<open>k\<close>-th call), the text of the two shader elements (\<open>None\<close> when the
  element is missing), the faces of the library's sphere (each with the positions of
  its three corners), the orbit controls, the renderer as created and the initial flag.
\<close>

record env =
  DEV_HELPERS :: bool
  lights :: "string list"
  Math_random :: "nat \<Rightarrow> real"
  vertexShader_element :: "string option"
  fragmentShader_element :: "string option"
  sphere_faces :: "(Vector3 \<times> Vector3 \<times> Vector3) list"
  controls_update :: "camera_name \<Rightarrow> PerspectiveCamera \<Rightarrow> PerspectiveCamera"
  initial_renderer :: WebGLRenderer
  initial_debugCamera :: bool

record app =
  innerWidth :: nat
  innerHeight :: nat
  scene_children :: "node list"
  cams :: cameras
  renderer :: WebGLRenderer
  debugCamera :: bool
  query_cameraDebug :: "bool option"
  console :: "console_entry list"
  targetObject :: "Group option"
  random_calls :: nat
  asset_loads :: nat
  assets_pending :: bool
  obj_loads :: nat
  obj_pending :: bool
  animation_requests :: nat
  uncaught :: "js_error list"

definition scene_add :: "node \<Rightarrow> app \<Rightarrow> app" where
  "scene_add n s = s\<lparr>scene_children := scene_children s @ [n]\<rparr>"

definition console_log :: "string \<Rightarrow> app \<Rightarrow> app" where
  "console_log t s = s\<lparr>console := console s @ [Log t]\<rparr>"

definition console_warn :: "string \<Rightarrow> app \<Rightarrow> app" where
  "console_warn t s = s\<lparr>console := console s @ [Warn t]\<rparr>"


section \<open>Handlers shared by both variants of index.ts\<close>

definition onAssetsError :: "string \<Rightarrow> app \<Rightarrow> app" where
  "onAssetsError e s = console_warn e s"

definition onResize :: "app \<Rightarrow> app" where
  "onResize s =
     (let c = cams s;
          c1 = c\<lparr>dev := (dev c)\<lparr>aspect :=
                 js_div (Num (real (innerWidth s))) (Num (real (innerHeight s)))\<rparr>\<rparr>;
          c2 = c1\<lparr>main := (main c1)\<lparr>aspect :=
                 js_div (Num (real (innerWidth s))) (Num (real (innerHeight s)))\<rparr>\<rparr>;
          c3 = c2\<lparr>dev := updateProjectionMatrix (dev c2)\<rparr>;
          c4 = c3\<lparr>main := updateProjectionMatrix (main c3)\<rparr>
      in s\<lparr>cams := c4,
           renderer := (renderer s)\<lparr>renderer_size := (innerWidth s, innerHeight s)\<rparr>\<rparr>)"

text \<open>The clear colour \<open>0x121212\<close>.\<close>

definition clear_colour :: nat where
  "clear_colour = 1184274"

definition render :: "camera_name \<Rightarrow> real \<Rightarrow> real \<Rightarrow> real \<Rightarrow> real \<Rightarrow> app \<Rightarrow> app" where
  "render camera left bottom width height s =
     (let left1 = left * real (innerWidth s);
          bottom1 = bottom * real (innerHeight s);
          width1 = width * real (innerWidth s);
          height1 = height * real (innerHeight s);
          r1 = (renderer s)\<lparr>viewport := (left1, bottom1, width1, height1)\<rparr>;
          r2 = r1\<lparr>scissor := (left1, bottom1, width1, height1)\<rparr>;
          r3 = r2\<lparr>clearColor := clear_colour\<rparr>;
          r4 = r3\<lparr>rendered := rendered r3 @ [(camera, viewport r3, scissor r3)]\<rparr>
      in s\<lparr>renderer := r4\<rparr>)"

text \<open>The branch on the flag that ends both variants of \<open>update\<close>.\<close>

definition render_cameras :: "app \<Rightarrow> app" where
  "render_cameras s =
     (if debugCamera s
      then render Main 0 0.75 0.25 0.25 (render Dev 0 0 1 1 s)
      else render Main 0 0 1 1 s)"

text \<open>
  The head of both variants of \<open>update\<close>: the next frame is requested and both orbit
  controls are updated (the statistics overlays keep no state of the model).
\<close>

definition update_head :: "env \<Rightarrow> app \<Rightarrow> app" where
  "update_head e s =
     (let s1 = s\<lparr>animation_requests := animation_requests s + 1\<rparr>;
          c1 = (cams s1)\<lparr>dev := controls_update e Dev (dev (cams s1))\<rparr>;
          c2 = c1\<lparr>main := controls_update e Main (main c1)\<rparr>
      in s1\<lparr>cams := c2\<rparr>)"


section \<open>The particle-field builder\<close>

datatype point = Point (point_x: jsval) (point_y: jsval) (point_z: jsval)

text \<open>
  The inner loop of the flattening: stride 3 (\<open>groupBy\<close>), guarded on the index of the
  first component only.
\<close>

function flatten_positions :: "real list \<Rightarrow> nat \<Rightarrow> point list \<Rightarrow> point list" where
  "flatten_positions a i acc =
     (if i < length a
      then flatten_positions a (i + 3)
             (acc @ [Point (typed_index a i) (typed_index a (i + 1)) (typed_index a (i + 2))])
      else acc)"
  by pat_completeness auto
termination
  by (relation "measure (\<lambda>(a, i, acc). length a - i)") auto

declare flatten_positions.simps [simp del]

text \<open>
  \<open>children.forEach\<close>: each child's material is switched to wireframe and its positions
  are appended to \<open>targetOffsets\<close>.
\<close>

fun children_forEach :: "model_child list \<Rightarrow> point list \<Rightarrow> model_child list \<times> point list" where
  "children_forEach [] acc = ([], acc)"
| "children_forEach (c # cs) acc =
     (let c1 = c\<lparr>wireframe := True\<rparr>;
          acc1 = flatten_positions (position_array c1) 0 acc;
          (cs1, acc2) = children_forEach cs acc1
      in (c1 # cs1, acc2))"

record attribute_arrays =
  offsets :: "jsval list"
  colors :: "real list"
  orientationsStart :: "real list"
  orientationsEnd :: "real list"

definition empty_arrays :: attribute_arrays where
  "empty_arrays = \<lparr>offsets = [], colors = [], orientationsStart = [], orientationsEnd = []\<rparr>"

definition vector_components :: "Vector4 \<Rightarrow> real list" where
  "vector_components v = [v4_x v, v4_y v, v4_z v, v4_w v]"

subsection \<open>The variant that samples the reference model\<close>

definition instances_obj :: nat where
  "instances_obj = 15012"

text \<open>
  One pass of the instance loop. The state is the four arrays and the number of calls
  of the random source so far. \<open>targetOffsets[i]\<close> is \<open>undefined\<close> past the end of the
  pool, and reading its \<open>x\<close> then throws before anything is pushed.
\<close>

definition instance_obj ::
  "env \<Rightarrow> point list \<Rightarrow> nat \<Rightarrow> attribute_arrays \<times> nat \<Rightarrow> js_error option \<times> attribute_arrays \<times> nat" where
  "instance_obj e targetOffsets i st =
     (case js_index targetOffsets i of
        None \<Rightarrow> (Some TypeError, st)
      | Some p \<Rightarrow>
          (let (a, k) = st;
               a1 = a\<lparr>offsets := offsets a @
                      [js_mul (point_x p) (Num 0.01), js_mul (point_y p) (Num 0.01),
                       js_mul (point_z p) (Num 0.01)]\<rparr>;
               a2 = a1\<lparr>colors := colors a1 @
                      [Math_random e k, Math_random e (k + 1), Math_random e (k + 2),
                       Math_random e (k + 3)]\<rparr>;
               v1 = Vector4_normalize (Vector4 0.5 0.5 0.5 0.5);
               a3 = a2\<lparr>orientationsStart := orientationsStart a2 @ vector_components v1\<rparr>;
               v2 = Vector4_normalize (Vector4 0.5 0.5 0.5 0.5);
               a4 = a3\<lparr>orientationsEnd := orientationsEnd a3 @ vector_components v2\<rparr>
           in (None, a4, k + 4)))"

function instances_loop_obj ::
  "env \<Rightarrow> point list \<Rightarrow> nat \<Rightarrow> nat \<Rightarrow> attribute_arrays \<times> nat \<Rightarrow> js_error option \<times> attribute_arrays \<times> nat" where
  "instances_loop_obj e targetOffsets i n st =
     (if i < n
      then (case instance_obj e targetOffsets i st of
              (Some err, st1) \<Rightarrow> (Some err, st1)
            | (None, st1) \<Rightarrow> instances_loop_obj e targetOffsets (i + 1) n st1)
      else (None, st))"
  by pat_completeness auto
termination
  by (relation "measure (\<lambda>(e, t, i, n, st). n - i)") auto

declare instances_loop_obj.simps [simp del]

definition sphere_positions :: "env \<Rightarrow> real list" where
  "sphere_positions e =
     concat (map (\<lambda>(a, b, c).
        [v3_x a, v3_y a, v3_z a, v3_x b, v3_y b, v3_z b, v3_x c, v3_y c, v3_z c])
        (sphere_faces e))"

definition new_Mesh :: "InstancedBufferGeometry \<Rightarrow> RawShaderMaterial \<Rightarrow> node" where
  "new_Mesh g m = \<lparr>kind = Mesh g m, rotation_y = 0\<rparr>"

definition objectInit_obj :: "env \<Rightarrow> app \<Rightarrow> js_error option \<times> app" where
  "objectInit_obj e s =
     (case targetObject s of
        None \<Rightarrow> (Some TypeError, s)
      | Some obj \<Rightarrow>
          (let (cs, targetOffsets) = children_forEach (children obj) [];
               s1 = s\<lparr>targetObject := Some (obj\<lparr>children := cs\<rparr>)\<rparr>
           in case instances_loop_obj e targetOffsets 0 instances_obj
                     (empty_arrays, random_calls s1) of
                (Some err, a, k) \<Rightarrow> (Some err, s1\<lparr>random_calls := k\<rparr>)
              | (None, a, k) \<Rightarrow>
                  (let s2 = s1\<lparr>random_calls := k\<rparr>;
                       geometry = \<lparr>maxInstancedCount = instances_obj,
                                   attr_position = Float32Array (map Num (sphere_positions e)),
                                   attr_offset = Float32Array (offsets a),
                                   attr_color = Float32Array (map Num (colors a)),
                                   attr_orientationStart =
                                     Float32Array (map Num (orientationsStart a)),
                                   attr_orientationEnd =
                                     Float32Array (map Num (orientationsEnd a))\<rparr>
                   in case vertexShader_element e of
                        None \<Rightarrow> (Some TypeError, s2)
                      | Some vs \<Rightarrow>
                          (case fragmentShader_element e of
                             None \<Rightarrow> (Some TypeError, s2)
                           | Some fs \<Rightarrow>
                               (None, scene_add
                                  (new_Mesh geometry
                                     \<lparr>uniform_time = 1, uniform_sineTime = 1,
                                      vertexShader = vs, fragmentShader = fs,
                                      transparent = False\<rparr>) s2)))))"

subsection \<open>The triangle variant\<close>

definition instances_tri :: nat where
  "instances_tri = 5000"

definition instance_tri :: "env \<Rightarrow> attribute_arrays \<times> nat \<Rightarrow> attribute_arrays \<times> nat" where
  "instance_tri e st =
     (let (a, k) = st;
          a1 = a\<lparr>offsets := offsets a @
                 [Num (Math_random e k - 0.5), Num (Math_random e (k + 1) - 0.5),
                  Num (Math_random e (k + 2) - 0.5)]\<rparr>;
          a2 = a1\<lparr>colors := colors a1 @
                 [Math_random e (k + 3), Math_random e (k + 4), Math_random e (k + 5),
                  Math_random e (k + 6)]\<rparr>;
          v1 = Vector4_normalize
                 (Vector4 (Math_random e (k + 7) * 2 - 1) (Math_random e (k + 8) * 2 - 1)
                    (Math_random e (k + 9) * 2 - 1) (Math_random e (k + 10) * 2 - 1));
          a3 = a2\<lparr>orientationsStart := orientationsStart a2 @ vector_components v1\<rparr>;
          v2 = Vector4_normalize
                 (Vector4 (Math_random e (k + 11) * 2 - 1) (Math_random e (k + 12) * 2 - 1)
                    (Math_random e (k + 13) * 2 - 1) (Math_random e (k + 14) * 2 - 1));
          a4 = a3\<lparr>orientationsEnd := orientationsEnd a3 @ vector_components v2\<rparr>
      in (a4, k + 15))"

function instances_loop_tri ::
  "env \<Rightarrow> nat \<Rightarrow> nat \<Rightarrow> attribute_arrays \<times> nat \<Rightarrow> attribute_arrays \<times> nat" where
  "instances_loop_tri e i n st =
     (if i < n then instances_loop_tri e (i + 1) n (instance_tri e st) else st)"
  by pat_completeness auto
termination
  by (relation "measure (\<lambda>(e, i, n, st). n - i)") auto

declare instances_loop_tri.simps [simp del]

definition triangle_positions :: "real list" where
  "triangle_positions = [0.025, - 0.025, 0, - 0.025, 0.025, 0, 0, 0, 0.025]"

definition objectInit_tri :: "env \<Rightarrow> app \<Rightarrow> js_error option \<times> app" where
  "objectInit_tri e s =
     (let (a, k) = instances_loop_tri e 0 instances_tri (empty_arrays, random_calls s);
          s1 = s\<lparr>random_calls := k\<rparr>;
          geometry = \<lparr>maxInstancedCount = instances_tri,
                      attr_position = Float32Array (map Num triangle_positions),
                      attr_offset = Float32Array (offsets a),
                      attr_color = Float32Array (map Num (colors a)),
                      attr_orientationStart = Float32Array (map Num (orientationsStart a)),
                      attr_orientationEnd = Float32Array (map Num (orientationsEnd a))\<rparr>
      in case vertexShader_element e of
           None \<Rightarrow> (Some TypeError, s1)
         | Some vs \<Rightarrow>
             (case fragmentShader_element e of
                None \<Rightarrow> (Some TypeError, s1)
              | Some fs \<Rightarrow>
                  (None, console_log ''scene''
                     (scene_add
                        (new_Mesh geometry
                           \<lparr>uniform_time = 1, uniform_sineTime = 1,
                            vertexShader = vs, fragmentShader = fs,
                            transparent = True\<rparr>) s1))))"


section \<open>Loading, the frame loop and the event loop\<close>

datatype variant = ObjVariant | TriangleVariant

text \<open>\<open>loadObj\<close> starts the load of the reference model; its callbacks run later.\<close>

definition loadObj :: "app \<Rightarrow> app" where
  "loadObj s = s\<lparr>obj_loads := obj_loads s + 1, obj_pending := True\<rparr>"

text \<open>The success callback of the model load.\<close>

definition onObjLoaded :: "env \<Rightarrow> Group \<Rightarrow> app \<Rightarrow> js_error option \<times> app" where
  "onObjLoaded e object s =
     (let s1 = s\<lparr>targetObject := Some (object\<lparr>scale := Vector3 0.02 0.02 0.02\<rparr>)\<rparr>;
          s2 = scene_add \<lparr>kind = TargetObject, rotation_y = 0\<rparr> s1
      in objectInit_obj e s2)"

definition onAssetsLoaded_obj :: "string \<Rightarrow> app \<Rightarrow> js_error option \<times> app" where
  "onAssetsLoaded_obj v s = (None, loadObj (console_log (''assets loaded '' @ v) s))"

definition onAssetsLoaded_tri :: "env \<Rightarrow> string \<Rightarrow> app \<Rightarrow> js_error option \<times> app" where
  "onAssetsLoaded_tri e v s = objectInit_tri e (console_log (''assets loaded '' @ v) s)"

definition onAssetsLoaded :: "variant \<Rightarrow> env \<Rightarrow> string \<Rightarrow> app \<Rightarrow> js_error option \<times> app" where
  "onAssetsLoaded var e v s =
     (case var of ObjVariant \<Rightarrow> onAssetsLoaded_obj v s
      | TriangleVariant \<Rightarrow> onAssetsLoaded_tri e v s)"

text \<open>
  \<open>update\<close> in the variant that samples the model: the last child of the scene is
  looked up but not used (the animation of its uniforms is commented out).
\<close>

definition update_obj :: "env \<Rightarrow> real \<Rightarrow> app \<Rightarrow> js_error option \<times> app" where
  "update_obj e time s = (None, render_cameras (update_head e s))"

text \<open>
  \<open>update\<close> in the triangle variant: \<open>scene.children[3]\<close> is read and dereferenced.
  Reading \<open>rotation\<close> of \<open>undefined\<close> throws; a node without a material with uniforms
  throws after its rotation has been set.
\<close>

definition update_tri :: "env \<Rightarrow> real \<Rightarrow> app \<Rightarrow> js_error option \<times> app" where
  "update_tri e time s =
     (let s2 = update_head e s
      in case js_index (scene_children s2) 3 of
           None \<Rightarrow> (Some TypeError, s2)
         | Some object \<Rightarrow>
             (let object1 = object\<lparr>rotation_y := time * 0.0005\<rparr>;
                  s3 = s2\<lparr>scene_children := (scene_children s2)[3 := object1]\<rparr>
              in case kind object1 of
                   Mesh g m \<Rightarrow>
                     (let m1 = m\<lparr>uniform_time := time * 0.005\<rparr>;
                          m2 = m1\<lparr>uniform_sineTime := sin (uniform_time m1 * 0.05)\<rparr>;
                          s4 = s3\<lparr>scene_children :=
                                 (scene_children s3)[3 := object1\<lparr>kind := Mesh g m2\<rparr>]\<rparr>
                      in (None, render_cameras s4))
                 | _ \<Rightarrow> (Some TypeError, s3)))"

definition update :: "variant \<Rightarrow> env \<Rightarrow> real \<Rightarrow> app \<Rightarrow> js_error option \<times> app" where
  "update var e time s =
     (case var of ObjVariant \<Rightarrow> update_obj e time s
      | TriangleVariant \<Rightarrow> update_tri e time s)"

text \<open>
  Modelled from the spec: the modules that create the scene, the renderer and the flags
  are not part of the sources. The scene is a container that starts without children;
  the renderer and the flag start as the environment gives them. This is the page
  before the constructor runs.
\<close>

definition page :: "env \<Rightarrow> nat \<Rightarrow> nat \<Rightarrow> app" where
  "page e w h =
     \<lparr>innerWidth = w, innerHeight = h, scene_children = [], cams = cameras_module w h,
      renderer = initial_renderer e, debugCamera = initial_debugCamera e,
      query_cameraDebug = None, console = [], targetObject = None, random_calls = 0,
      asset_loads = 0, assets_pending = False, obj_loads = 0, obj_pending = False,
      animation_requests = 0, uncaught = []\<rparr>"

definition add_helpers :: "env \<Rightarrow> app \<Rightarrow> app" where
  "add_helpers e s =
     (if DEV_HELPERS e
      then scene_add \<lparr>kind = AxisHelper, rotation_y = 0\<rparr>
             (scene_add \<lparr>kind = GridHelper 10 10, rotation_y = 0\<rparr> s)
      else s)"

definition add_lights :: "env \<Rightarrow> app \<Rightarrow> app" where
  "add_lights e s = foldl (\<lambda>s1 l. scene_add \<lparr>kind = Light l, rotation_y = 0\<rparr> s1) s (lights e)"

text \<open>
  The constructor: helpers, lights, the call of the asset loader with its two
  continuations attached, and the first call of \<open>update\<close> at time \<open>now\<close>.
\<close>

definition before_first_frame :: "env \<Rightarrow> nat \<Rightarrow> nat \<Rightarrow> app" where
  "before_first_frame e w h =
     (let s1 = add_lights e (add_helpers e (page e w h))
      in s1\<lparr>asset_loads := asset_loads s1 + 1, assets_pending := True\<rparr>)"

definition constructor :: "variant \<Rightarrow> env \<Rightarrow> nat \<Rightarrow> nat \<Rightarrow> real \<Rightarrow> js_error option \<times> app" where
  "constructor var e w h now = update var e now (before_first_frame e w h)"

text \<open>An exception nobody catches is reported and the state reached is kept.\<close>

definition top_level :: "js_error option \<times> app \<Rightarrow> app" where
  "top_level r =
     (case r of (None, s) \<Rightarrow> s
      | (Some err, s) \<Rightarrow> s\<lparr>uncaught := uncaught s @ [err]\<rparr>)"

definition startup :: "variant \<Rightarrow> env \<Rightarrow> nat \<Rightarrow> nat \<Rightarrow> real \<Rightarrow> app" where
  "startup var e w h now = top_level (constructor var e w h now)"

fun error_text :: "js_error \<Rightarrow> string" where
  "error_text TypeError = ''TypeError''"

text \<open>
  What the browser and the loaders deliver. A promise settles once, so the manifest
  events count only while the load is pending; the success and error callbacks of the
  model load run only for a load in flight, its progress callbacks (which only log)
  for a load that was started; a frame runs only when one was requested.
\<close>

datatype event =
    Resize nat nat
  | AnimationFrame real
  | DebugCameraChange bool
  | AssetsResolved string
  | AssetsRejected string
  | ObjLoaded Group
  | ObjProgress string
  | ObjError string

fun dispatch :: "variant \<Rightarrow> env \<Rightarrow> event \<Rightarrow> app \<Rightarrow> app" where
  "dispatch var e (Resize w h) s = onResize (s\<lparr>innerWidth := w, innerHeight := h\<rparr>)"
| "dispatch var e (AnimationFrame t) s =
     (if animation_requests s = 0 then s
      else top_level (update var e t (s\<lparr>animation_requests := animation_requests s - 1\<rparr>)))"
| "dispatch var e (DebugCameraChange b) s =
     s\<lparr>debugCamera := b, query_cameraDebug := Some b\<rparr>"
| "dispatch var e (AssetsResolved v) s =
     (if assets_pending s
      then (case onAssetsLoaded var e v (s\<lparr>assets_pending := False\<rparr>) of
              (None, s1) \<Rightarrow> s1
            | (Some err, s1) \<Rightarrow> onAssetsError (error_text err) s1)
      else s)"
| "dispatch var e (AssetsRejected err) s =
     (if assets_pending s then onAssetsError err (s\<lparr>assets_pending := False\<rparr>) else s)"
| "dispatch var e (ObjLoaded object) s =
     (if obj_pending s then top_level (onObjLoaded e object (s\<lparr>obj_pending := False\<rparr>)) else s)"
| "dispatch var e (ObjProgress t) s = (if 0 < obj_loads s then console_log t s else s)"
| "dispatch var e (ObjError t) s =
     (if obj_pending s then console_log t (s\<lparr>obj_pending := False\<rparr>) else s)"

fun run :: "variant \<Rightarrow> env \<Rightarrow> event list \<Rightarrow> app \<Rightarrow> app" where
  "run var e [] s = s"
| "run var e (ev # evs) s = run var e evs (dispatch var e ev s)"


section \<open>Observations, closed forms and example inputs used in the statements\<close>

text \<open>
  The aspect of both cameras is the ratio of the current window, and both projection
  matrices were computed from it.
\<close>

definition aspect_matches_viewport :: "app \<Rightarrow> bool" where
  "aspect_matches_viewport s =
     (let ratio = js_div (Num (real (innerWidth s))) (Num (real (innerHeight s)));
          d = dev (cams s); m = main (cams s)
      in aspect d = ratio \<and> aspect m = ratio
         \<and> projectionMatrix d = Projection (fov d) ratio (near d) (far d)
         \<and> projectionMatrix m = Projection (fov m) ratio (near m) (far m))"

text \<open>The kinds of the children of the scene, whatever their rotation.\<close>

fun is_mesh :: "node_kind \<Rightarrow> bool" where
  "is_mesh (Mesh g m) = True"
| "is_mesh k = False"

definition scene_kinds :: "app \<Rightarrow> node_kind list" where
  "scene_kinds s = map kind (scene_children s)"

text \<open>
  An example environment: the helpers and one light, a random source that always
  returns 0, both shader elements present, orbit controls that leave the cameras
  alone, a renderer that has drawn nothing yet, and the debug flag off.
\<close>

definition example_renderer :: WebGLRenderer where
  "example_renderer =
     \<lparr>viewport = (0, 0, 0, 0), scissor = (0, 0, 0, 0), clearColor = 0,
      renderer_size = (0, 0), rendered = []\<rparr>"

definition example_env :: env where
  "example_env =
     \<lparr>DEV_HELPERS = True, lights = [''ambient''], Math_random = (\<lambda>k. 0),
      vertexShader_element = Some ''vertex'', fragmentShader_element = Some ''fragment'',
      sphere_faces = [], controls_update = (\<lambda>n c. c),
      initial_renderer = example_renderer, initial_debugCamera = False\<rparr>"

text \<open>The kinds of the children the constructor adds: the helpers, then the lights.\<close>

definition startup_kinds :: "env \<Rightarrow> node_kind list" where
  "startup_kinds e =
     (if DEV_HELPERS e then [GridHelper 10 10, AxisHelper] else []) @ map Light (lights e)"

text \<open>The point pushed by the pass of the flattening loop at index \<open>j\<close>.\<close>

definition point_at :: "real list \<Rightarrow> nat \<Rightarrow> point" where
  "point_at a j = Point (typed_index a j) (typed_index a (j + 1)) (typed_index a (j + 2))"

text \<open>No component of the point was read past the end of the array.\<close>

definition defined_point :: "point \<Rightarrow> bool" where
  "defined_point p =
     (point_x p \<noteq> Undefined \<and> point_y p \<noteq> Undefined \<and> point_z p \<noteq> Undefined)"

text \<open>
  What one pass of an instance loop pushes, in closed form: the scaled sample point and
  the random numbers of the pass for instance \<open>j\<close>, when the loop started after \<open>b\<close> calls of
  the random source.
\<close>

definition scaled_point :: "point \<Rightarrow> jsval list" where
  "scaled_point p =
     [js_mul (point_x p) (Num 0.01), js_mul (point_y p) (Num 0.01), js_mul (point_z p) (Num 0.01)]"

definition obj_color :: "env \<Rightarrow> nat \<Rightarrow> nat \<Rightarrow> real list" where
  "obj_color e b j =
     [Math_random e (b + 4 * j), Math_random e (b + 4 * j + 1), Math_random e (b + 4 * j + 2),
      Math_random e (b + 4 * j + 3)]"

definition half_quaternion :: "real list" where
  "half_quaternion = [1 / 2, 1 / 2, 1 / 2, 1 / 2]"

definition tri_offset :: "env \<Rightarrow> nat \<Rightarrow> nat \<Rightarrow> jsval list" where
  "tri_offset e b j =
     [Num (Math_random e (b + 15 * j) - 0.5), Num (Math_random e (b + 15 * j + 1) - 0.5),
      Num (Math_random e (b + 15 * j + 2) - 0.5)]"

definition tri_color :: "env \<Rightarrow> nat \<Rightarrow> nat \<Rightarrow> real list" where
  "tri_color e b j =
     [Math_random e (b + 15 * j + 3), Math_random e (b + 15 * j + 4),
      Math_random e (b + 15 * j + 5), Math_random e (b + 15 * j + 6)]"

definition tri_start :: "env \<Rightarrow> nat \<Rightarrow> nat \<Rightarrow> real list" where
  "tri_start e b j =
     vector_components (Vector4_normalize
       (Vector4 (Math_random e (b + 15 * j + 7) * 2 - 1) (Math_random e (b + 15 * j + 8) * 2 - 1)
          (Math_random e (b + 15 * j + 9) * 2 - 1) (Math_random e (b + 15 * j + 10) * 2 - 1)))"

definition tri_end :: "env \<Rightarrow> nat \<Rightarrow> nat \<Rightarrow> real list" where
  "tri_end e b j =
     vector_components (Vector4_normalize
       (Vector4 (Math_random e (b + 15 * j + 11) * 2 - 1) (Math_random e (b + 15 * j + 12) * 2 - 1)
          (Math_random e (b + 15 * j + 13) * 2 - 1) (Math_random e (b + 15 * j + 14) * 2 - 1)))"

text \<open>
  The mesh the scene ends with, if it ends with one (the child the builder has just
  added), and the items of its instanced attributes that belong to instance \<open>i\<close>:
  consecutive groups of 3 (offset) and 4 (colour, orientations) components.
\<close>

definition added_mesh :: "app \<Rightarrow> (InstancedBufferGeometry \<times> RawShaderMaterial) option" where
  "added_mesh s =
     (case rev (scene_children s) of
        [] \<Rightarrow> None
      | n # ns \<Rightarrow> (case kind n of Mesh g m \<Rightarrow> Some (g, m) | _ \<Rightarrow> None))"

definition item :: "nat \<Rightarrow> 'a list \<Rightarrow> nat \<Rightarrow> 'a list" where
  "item m xs i = take m (drop (m * i) xs)"

definition field_count :: "app \<Rightarrow> nat option" where
  "field_count s = (case added_mesh s of None \<Rightarrow> None | Some (g, m) \<Rightarrow> Some (maxInstancedCount g))"

definition field_offset :: "app \<Rightarrow> nat \<Rightarrow> jsval list" where
  "field_offset s i = (case added_mesh s of None \<Rightarrow> [] | Some (g, m) \<Rightarrow> item 3 (attr_offset g) i)"

definition field_color :: "app \<Rightarrow> nat \<Rightarrow> jsval list" where
  "field_color s i = (case added_mesh s of None \<Rightarrow> [] | Some (g, m) \<Rightarrow> item 4 (attr_color g) i)"

definition field_orientationStart :: "app \<Rightarrow> nat \<Rightarrow> jsval list" where
  "field_orientationStart s i =
     (case added_mesh s of None \<Rightarrow> [] | Some (g, m) \<Rightarrow> item 4 (attr_orientationStart g) i)"

definition field_orientationEnd :: "app \<Rightarrow> nat \<Rightarrow> jsval list" where
  "field_orientationEnd s i =
     (case added_mesh s of None \<Rightarrow> [] | Some (g, m) \<Rightarrow> item 4 (attr_orientationEnd g) i)"

text \<open>A stored value that is a number of the closed unit interval.\<close>

definition stored_in_unit :: "jsval \<Rightarrow> bool" where
  "stored_in_unit v = (case v of Num r \<Rightarrow> 0 \<le> r \<and> r \<le> 1 | _ \<Rightarrow> False)"

text \<open>The example environment with a random source that always returns \<open>1 - 2^-30\<close>.\<close>

definition almost_one_env :: env where
  "almost_one_env = example_env\<lparr>Math_random := (\<lambda>k. 1 - 1 / 2 ^ 30)\<rparr>"

text \<open>The sample pool of a reference model: what the flattening collects from it.\<close>

definition sample_pool :: "Group \<Rightarrow> point list" where
  "sample_pool obj = snd (children_forEach (children obj) [])"

text \<open>The geometry and the material the builder puts together, in closed form.\<close>

definition obj_geometry :: "env \<Rightarrow> Group \<Rightarrow> nat \<Rightarrow> InstancedBufferGeometry" where
  "obj_geometry e obj b =
     \<lparr>maxInstancedCount = instances_obj,
      attr_position = Float32Array (map Num (sphere_positions e)),
      attr_offset = Float32Array
        (concat (map (\<lambda>j. scaled_point (sample_pool obj ! j)) [0..<instances_obj])),
      attr_color = Float32Array (map Num (concat (map (obj_color e b) [0..<instances_obj]))),
      attr_orientationStart =
        Float32Array (map Num (concat (replicate instances_obj half_quaternion))),
      attr_orientationEnd =
        Float32Array (map Num (concat (replicate instances_obj half_quaternion)))\<rparr>"

definition tri_geometry :: "env \<Rightarrow> nat \<Rightarrow> InstancedBufferGeometry" where
  "tri_geometry e b =
     \<lparr>maxInstancedCount = instances_tri,
      attr_position = Float32Array (map Num triangle_positions),
      attr_offset = Float32Array (concat (map (tri_offset e b) [0..<instances_tri])),
      attr_color = Float32Array (map Num (concat (map (tri_color e b) [0..<instances_tri]))),
      attr_orientationStart =
        Float32Array (map Num (concat (map (tri_start e b) [0..<instances_tri]))),
      attr_orientationEnd =
        Float32Array (map Num (concat (map (tri_end e b) [0..<instances_tri])))\<rparr>"

definition particle_material :: "string \<Rightarrow> string \<Rightarrow> bool \<Rightarrow> RawShaderMaterial" where
  "particle_material vs fs tr =
     \<lparr>uniform_time = 1, uniform_sineTime = 1, vertexShader = vs, fragmentShader = fs,
      transparent = tr\<rparr>"

text \<open>A reference model of one child mesh with 15012 vertices, all at (100, 100, 100).\<close>

definition example_model :: Group where
  "example_model =
     \<lparr>scale = Vector3 1 1 1,
      children = [\<lparr>position_array = replicate 45036 100, wireframe = False\<rparr>]\<rparr>"

text \<open>A reference model of one child mesh with a single vertex.\<close>

definition small_model :: Group where
  "small_model =
     \<lparr>scale = Vector3 1 1 1, children = [\<lparr>position_array = [1, 2, 3], wireframe = False\<rparr>]\<rparr>"

text \<open>
  The state in which the success callback of the model load calls the builder, for a
  model loaded in the example environment right after the constructor.
\<close>

definition loaded_state :: "Group \<Rightarrow> app" where
  "loaded_state obj =
     scene_add \<lparr>kind = TargetObject, rotation_y = 0\<rparr>
       ((before_first_frame example_env 800 600)
          \<lparr>targetObject := Some (obj\<lparr>scale := Vector3 0.02 0.02 0.02\<rparr>)\<rparr>)"

text \<open>The geometry of each child of the scene that is a mesh.\<close>

definition node_geometry :: "node \<Rightarrow> InstancedBufferGeometry option" where
  "node_geometry n = (case kind n of Mesh g m \<Rightarrow> Some g | _ \<Rightarrow> None)"

definition scene_geometries :: "app \<Rightarrow> InstancedBufferGeometry option list" where
  "scene_geometries s = map node_geometry (scene_children s)"


section \<open>Theorems\<close>

subsection \<open>Single precision\<close>

lemma pow2_powr: "pow2 k = 2 powr (of_int k)"
  by (simp add: pow2_def powr_real_of_int inverse_eq_divide)

lemma pow2_pos [simp]: "0 < pow2 k"
  by (simp add: pow2_def)

lemma pow2_mono: "a \<le> b \<Longrightarrow> pow2 a \<le> pow2 b"
  by (simp add: pow2_powr)

lemma pow2_nonzero [simp]: "pow2 k \<noteq> 0"
  by (simp add: pow2_def)

lemma pow2_abs [simp]: "\<bar>pow2 k\<bar> = pow2 k"
  by (simp add: pow2_def)

lemma exponent_eq:
  assumes "pow2 k \<le> \<bar>x\<bar>" and "\<bar>x\<bar> < pow2 (k + 1)" and "- 126 \<le> k"
  shows "float32_exponent x = k"
proof -
  have "0 < \<bar>x\<bar>" using assms(1) pow2_pos [of k] by linarith
  then have "\<lfloor>log 2 \<bar>x\<bar>\<rfloor> = k"
    using assms(1,2) by (simp add: floor_log_eq_powr_iff pow2_powr)
  with assms(3) show ?thesis by (simp add: float32_exponent_def)
qed

lemma round_half_even_int [simp]: "round_half_even (of_int n) = n"
  by (simp add: round_half_even_def)

lemma round_half_even_bounds:
  "\<lfloor>y\<rfloor> \<le> round_half_even y \<and> round_half_even y \<le> \<lfloor>y\<rfloor> + 1"
  by (simp add: round_half_even_def Let_def)

text \<open>
  A number \<open>m * 2^(k - 23)\<close> with a significand \<open>m\<close> of 24 bits and a normal exponent
  \<open>k\<close> is stored as it is.
\<close>

lemma fround_exact:
  assumes "2 ^ 23 \<le> \<bar>m\<bar>" and "\<bar>m\<bar> < 2 ^ 24" and "- 126 \<le> k" and "k \<le> 127"
  shows "Math_fround (of_int m * pow2 (k - 23)) = Num (of_int m * pow2 (k - 23))"
proof -
  let ?x = "of_int m * pow2 (k - 23) :: real"
  have p: "pow2 k = 2 ^ 23 * pow2 (k - 23)" "pow2 (k + 1) = 2 ^ 24 * pow2 (k - 23)"
    by (simp_all add: pow2_powr powr_diff powr_add)
  have abs: "\<bar>?x\<bar> = of_int \<bar>m\<bar> * pow2 (k - 23)"
    by (simp add: abs_mult)
  have lo: "pow2 k \<le> \<bar>?x\<bar>"
    unfolding abs p using assms(1) by (simp add: mult_right_mono)
  have hi: "\<bar>?x\<bar> < pow2 (k + 1)"
    unfolding abs p using assms(2) by (simp add: mult_strict_right_mono)
  have e: "float32_exponent ?x = k" by (rule exponent_eq [OF lo hi assms(3)])
  have nz: "?x \<noteq> 0" using assms(1) by auto
  have "pow2 (k + 1) \<le> pow2 128"
    using assms(4) by (intro pow2_mono) simp
  moreover have "pow2 128 = 2 ^ 128" by (simp add: pow2_def)
  ultimately have "\<bar>?x\<bar> < 2 ^ 128" using hi by linarith
  then show ?thesis
    using e nz by (simp add: Math_fround_def Let_def)
qed

lemma fround_values:
  "Math_fround 0 = Num 0" "Math_fround 1 = Num 1"
  "Math_fround (1 / 2) = Num (1 / 2)" "Math_fround (- 1 / 2) = Num (- 1 / 2)"
  "Math_fround (- (1 / 2)) = Num (- (1 / 2))"
proof -
  show "Math_fround 0 = Num 0" by (simp add: Math_fround_def)
  show "Math_fround 1 = Num 1"
    using fround_exact [of "2 ^ 23" 0] by (simp add: pow2_def)
  show "Math_fround (1 / 2) = Num (1 / 2)"
    using fround_exact [of "2 ^ 23" "- 1"] by (simp add: pow2_def)
  show "Math_fround (- 1 / 2) = Num (- 1 / 2)"
    using fround_exact [of "- (2 ^ 23)" "- 1"] by (simp add: pow2_def)
  then show "Math_fround (- (1 / 2)) = Num (- (1 / 2))" by simp
qed

text \<open>A number of [0, 1) is stored as a number of [0, 1].\<close>

lemma fround_unit:
  assumes "0 \<le> x" and "x < 1"
  shows "stored_in_unit (Math_fround x)"
proof (cases "x = 0")
  case True
  then show ?thesis by (simp add: Math_fround_def stored_in_unit_def)
next
  case False
  with assms have pos: "0 < x" by simp
  let ?e = "float32_exponent x"
  have "log 2 \<bar>x\<bar> < 0" using pos assms(2) by simp
  then have "\<lfloor>log 2 \<bar>x\<bar>\<rfloor> < 0"
    by (intro floor_less_iff [THEN iffD2]) simp
  then have e: "?e \<le> - 1" unfolding float32_exponent_def by linarith
  define n where "n = nat (23 - ?e)"
  have q: "pow2 (?e - 23) = 1 / 2 ^ n"
    using e by (simp add: pow2_def n_def)
  let ?y = "x * 2 ^ n"
  let ?R = "round_half_even ?y"
  have y0: "0 \<le> ?y" using pos by simp
  have y1: "?y < 2 ^ n" using assms(2) by simp
  have "\<lfloor>?y\<rfloor> < 2 ^ n" using y1 by (simp add: floor_less_iff)
  moreover have "0 \<le> \<lfloor>?y\<rfloor>" using y0 by simp
  ultimately have R: "0 \<le> ?R" "?R \<le> 2 ^ n"
    using round_half_even_bounds [of ?y] by linarith+
  let ?r = "of_int ?R / 2 ^ n :: real"
  have r0: "0 \<le> ?r" using R(1) by simp
  have "(of_int ?R :: real) \<le> 2 ^ n"
    using R(2) by (metis of_int_le_iff of_int_numeral of_int_power)
  then have r1: "?r \<le> 1" by (simp add: divide_le_eq)
  have "(1::real) < 2 ^ 128" by simp
  then have small: "\<not> 2 ^ 128 \<le> \<bar>?r\<bar>" using r0 r1 by linarith
  have "Math_fround x = Num ?r"
    using False small by (simp add: Math_fround_def Let_def q)
  with r0 r1 show ?thesis by (simp add: stored_in_unit_def)
qed

text \<open>The number \<open>1 - 2^-30\<close> is below 1 and is stored as 1.\<close>

lemma fround_almost_one: "Math_fround (1 - 1 / 2 ^ 30) = Num 1"
proof -
  let ?x = "1 - 1 / 2 ^ 30 :: real"
  have e: "float32_exponent ?x = - 1"
    by (rule exponent_eq) (simp_all add: pow2_def)
  have nz: "(?x = 0) = False" by simp
  have q: "pow2 (- 1 - 23) = 1 / 2 ^ 24"
    by (simp add: pow2_def)
  have y: "?x / (1 / 2 ^ 24) = 2 ^ 24 - 1 / 64"
    by simp
  have f: "\<lfloor>2 ^ 24 - 1 / 64 :: real\<rfloor> = 2 ^ 24 - 1"
    by (simp add: floor_eq_iff)
  have R: "round_half_even (2 ^ 24 - 1 / 64) = 2 ^ 24"
    unfolding round_half_even_def Let_def f by simp
  show ?thesis
    unfolding Math_fround_def Let_def e nz q y R by simp
qed

lemma Float32Array_simps [simp]:
  "Float32Array [] = []" "Float32Array (x # xs) = to_float32 x # Float32Array xs"
  "length (Float32Array xs) = length xs"
  by (simp_all add: Float32Array_def)

subsection \<open>Event sequences\<close>

lemma run_append: "run var e (xs @ ys) s = run var e ys (run var e xs s)"
  by (induction xs arbitrary: s) auto

subsection \<open>The camera module\<close>

text \<open>
  C7. Both cameras are built with field of view 50, near plane 1, far plane 10 and the
  ratio of the window as aspect. \<open>zoom\<close> sets the position to the factor times
  (1, 0.75, 1), then overwrites the Z coordinate with 2 and looks at the origin: the
  dev camera (factor 8) ends at (8, 6, 2), the main camera (factor 3) at (3, 2.25, 2).
\<close>

theorem cameras_construction:
  "dev (cameras_module w h) =
     \<lparr>fov = 50, aspect = js_div (Num (real w)) (Num (real h)), near = 1, far = 10,
      position = Vector3 8 6 2, lookAt_target = Some (Vector3 0 0 0),
      projectionMatrix = Projection 50 (js_div (Num (real w)) (Num (real h))) 1 10\<rparr>
   \<and> main (cameras_module w h) =
     \<lparr>fov = 50, aspect = js_div (Num (real w)) (Num (real h)), near = 1, far = 10,
      position = Vector3 3 2.25 2, lookAt_target = Some (Vector3 0 0 0),
      projectionMatrix = Projection 50 (js_div (Num (real w)) (Num (real h))) 1 10\<rparr>
   \<and> position (position_set c (1 * v) (0.75 * v) (1 * v)) = Vector3 v (0.75 * v) v
   \<and> position (position_z_assign (position_set c (1 * v) (0.75 * v) (1 * v)) 2)
       = Vector3 v (0.75 * v) 2
   \<and> position (zoom c v) = Vector3 v (0.75 * v) 2
   \<and> lookAt_target (zoom c v) = Some (Vector3 0 0 0)"
  by (simp add: cameras_module_def cameras_ratio_def new_PerspectiveCamera_def
      updateProjectionMatrix_def zoom_def lookAt_def position_z_assign_def position_set_def
      cameras_fov_def cameras_near_def cameras_far_def Let_def)

subsection \<open>Render passes\<close>

text \<open>
  C6. A render pass scales left and width by the window width and bottom and height by
  the window height, and sets the result as viewport and as scissor. For the
  fractions (0, 0.75, 0.25, 0.25) and a window of 800 by 600 this is (0, 450, 200, 150).
\<close>

theorem render_viewport:
  "viewport (renderer (render cam l b w h s)) =
     (l * real (innerWidth s), b * real (innerHeight s),
      w * real (innerWidth s), h * real (innerHeight s))
   \<and> scissor (renderer (render cam l b w h s)) = viewport (renderer (render cam l b w h s))
   \<and> viewport (renderer (render cam 0 0.75 0.25 0.25 (s\<lparr>innerWidth := 800, innerHeight := 600\<rparr>)))
       = (0, 450, 200, 150)
   \<and> scissor (renderer (render cam 0 0.75 0.25 0.25 (s\<lparr>innerWidth := 800, innerHeight := 600\<rparr>)))
       = (0, 450, 200, 150)"
  by (simp add: render_def Let_def)

subsection \<open>Resizing\<close>

lemma onResize_matches: "aspect_matches_viewport (onResize s)"
  by (simp add: aspect_matches_viewport_def onResize_def Let_def updateProjectionMatrix_def)

lemma onResize_window:
  "innerWidth (onResize s) = innerWidth s \<and> innerHeight (onResize s) = innerHeight s"
  by (simp add: onResize_def Let_def)

lemma onResize_intrinsics:
  "fov (dev (cams (onResize s))) = fov (dev (cams s))
   \<and> near (dev (cams (onResize s))) = near (dev (cams s))
   \<and> far (dev (cams (onResize s))) = far (dev (cams s))
   \<and> fov (main (cams (onResize s))) = fov (main (cams s))
   \<and> near (main (cams (onResize s))) = near (main (cams s))
   \<and> far (main (cams (onResize s))) = far (main (cams s))"
  by (simp add: onResize_def Let_def updateProjectionMatrix_def)

text \<open>
  C5. Whatever happened before, once a resize event to a window of \<open>w\<close> by \<open>h\<close> has
  been handled, the aspect of the dev camera and of the main camera is \<open>w / h\<close> (the
  quotient of the language: for a positive height the real quotient), and the
  projection matrix of each camera is the one computed from that aspect. This holds
  after every resize event of any sequence of events.
\<close>

theorem resize_aspect:
  "aspect (dev (cams (run var e (evs @ [Resize w h]) s))) = js_div (Num (real w)) (Num (real h))
   \<and> aspect (main (cams (run var e (evs @ [Resize w h]) s))) = js_div (Num (real w)) (Num (real h))
   \<and> projectionMatrix (dev (cams (run var e (evs @ [Resize w h]) s))) =
       Projection (fov (dev (cams (run var e evs s)))) (js_div (Num (real w)) (Num (real h)))
         (near (dev (cams (run var e evs s)))) (far (dev (cams (run var e evs s))))
   \<and> projectionMatrix (main (cams (run var e (evs @ [Resize w h]) s))) =
       Projection (fov (main (cams (run var e evs s)))) (js_div (Num (real w)) (Num (real h)))
         (near (main (cams (run var e evs s)))) (far (main (cams (run var e evs s))))
   \<and> aspect_matches_viewport (run var e (evs @ [Resize w h]) s)
   \<and> innerWidth (run var e (evs @ [Resize w h]) s) = w
   \<and> innerHeight (run var e (evs @ [Resize w h]) s) = h
   \<and> aspect (dev (cams (run var e (evs @ [Resize w (Suc h)]) s))) = Num (real w / real (Suc h))
   \<and> aspect (main (cams (run var e (evs @ [Resize w (Suc h)]) s))) = Num (real w / real (Suc h))"
proof -
  let ?s = "(run var e evs s)\<lparr>innerWidth := w, innerHeight := h\<rparr>"
  let ?t = "(run var e evs s)\<lparr>innerWidth := w, innerHeight := Suc h\<rparr>"
  have m: "aspect_matches_viewport (onResize ?s)"
    by (rule onResize_matches)
  have m': "aspect_matches_viewport (onResize ?t)"
    by (rule onResize_matches)
  have d: "js_div (Num (real w)) (Num (real (Suc h))) = Num (real w / real (Suc h))"
    by (simp add: js_div_def)
  from m have "aspect (dev (cams (onResize ?s))) = js_div (Num (real w)) (Num (real h))"
    and "aspect (main (cams (onResize ?s))) = js_div (Num (real w)) (Num (real h))"
    and "projectionMatrix (dev (cams (onResize ?s))) =
       Projection (fov (dev (cams ?s))) (js_div (Num (real w)) (Num (real h)))
         (near (dev (cams ?s))) (far (dev (cams ?s)))"
    and "projectionMatrix (main (cams (onResize ?s))) =
       Projection (fov (main (cams ?s))) (js_div (Num (real w)) (Num (real h)))
         (near (main (cams ?s))) (far (main (cams ?s)))"
    using onResize_intrinsics [of ?s] onResize_window [of ?s]
    by (simp_all add: aspect_matches_viewport_def Let_def)
  moreover from m' have "aspect (dev (cams (onResize ?t))) = Num (real w / real (Suc h))"
    and "aspect (main (cams (onResize ?t))) = Num (real w / real (Suc h))"
    using onResize_window [of ?t] d
    by (simp_all add: aspect_matches_viewport_def Let_def)
  ultimately show ?thesis
    using m onResize_window [of ?s]
    by (simp add: run_append)
qed

subsection \<open>Frames\<close>

lemma render_fields [simp]:
  "scene_children (render cam l b w h s) = scene_children s"
  "assets_pending (render cam l b w h s) = assets_pending s"
  "obj_pending (render cam l b w h s) = obj_pending s"
  "asset_loads (render cam l b w h s) = asset_loads s"
  "obj_loads (render cam l b w h s) = obj_loads s"
  "debugCamera (render cam l b w h s) = debugCamera s"
  "innerWidth (render cam l b w h s) = innerWidth s"
  "innerHeight (render cam l b w h s) = innerHeight s"
  "console (render cam l b w h s) = console s"
  by (simp_all add: render_def Let_def)

lemma render_rendered:
  "rendered (renderer (render cam l b w h s)) =
     rendered (renderer s) @
       [(cam, (l * real (innerWidth s), b * real (innerHeight s),
               w * real (innerWidth s), h * real (innerHeight s)),
              (l * real (innerWidth s), b * real (innerHeight s),
               w * real (innerWidth s), h * real (innerHeight s)))]"
  by (simp add: render_def Let_def)

lemma render_cameras_fields [simp]:
  "scene_children (render_cameras s) = scene_children s"
  "assets_pending (render_cameras s) = assets_pending s"
  "obj_pending (render_cameras s) = obj_pending s"
  "asset_loads (render_cameras s) = asset_loads s"
  "obj_loads (render_cameras s) = obj_loads s"
  "console (render_cameras s) = console s"
  by (simp_all add: render_cameras_def)

lemma update_head_fields [simp]:
  "scene_children (update_head e s) = scene_children s"
  "assets_pending (update_head e s) = assets_pending s"
  "obj_pending (update_head e s) = obj_pending s"
  "asset_loads (update_head e s) = asset_loads s"
  "obj_loads (update_head e s) = obj_loads s"
  "debugCamera (update_head e s) = debugCamera s"
  "innerWidth (update_head e s) = innerWidth s"
  "innerHeight (update_head e s) = innerHeight s"
  "renderer (update_head e s) = renderer s"
  "console (update_head e s) = console s"
  by (simp_all add: update_head_def Let_def)

lemma render_cameras_rendered:
  "rendered (renderer (render_cameras s)) =
     rendered (renderer s) @
       (if debugCamera s
        then [(Dev, (0, 0, real (innerWidth s), real (innerHeight s)),
                    (0, 0, real (innerWidth s), real (innerHeight s))),
              (Main, (0, 0.75 * real (innerHeight s), 0.25 * real (innerWidth s),
                      0.25 * real (innerHeight s)),
                     (0, 0.75 * real (innerHeight s), 0.25 * real (innerWidth s),
                      0.25 * real (innerHeight s)))]
        else [(Main, (0, 0, real (innerWidth s), real (innerHeight s)),
                     (0, 0, real (innerWidth s), real (innerHeight s)))])"
  by (simp add: render_cameras_def render_rendered)

lemma update_obj_passes:
  "fst (update_obj e t s) = None
   \<and> rendered (renderer (snd (update_obj e t s))) =
     rendered (renderer s) @
       (if debugCamera s
        then [(Dev, (0, 0, real (innerWidth s), real (innerHeight s)),
                    (0, 0, real (innerWidth s), real (innerHeight s))),
              (Main, (0, 0.75 * real (innerHeight s), 0.25 * real (innerWidth s),
                      0.25 * real (innerHeight s)),
                     (0, 0.75 * real (innerHeight s), 0.25 * real (innerWidth s),
                      0.25 * real (innerHeight s)))]
        else [(Main, (0, 0, real (innerWidth s), real (innerHeight s)),
                     (0, 0, real (innerWidth s), real (innerHeight s)))])"
  by (simp add: update_obj_def render_cameras_rendered)

text \<open>
  C9. In the triangle variant every frame reads \<open>scene.children[3]\<close>. While the scene
  has fewer than four children the access is out of range and the frame throws at the
  dereference, before anything is rendered. When the child is the particle mesh, its
  rotation and its two shader uniforms are overwritten and the frame goes on to
  render; any other child gets its rotation set and the frame throws at its material.
\<close>

theorem update_tri_positional:
  "(length (scene_children s) < 4 \<longrightarrow>
      js_index (scene_children (update_head e s)) 3 = None
      \<and> update_tri e t s = (Some TypeError, update_head e s)
      \<and> rendered (renderer (snd (update_tri e t s))) = rendered (renderer s))
   \<and> (\<forall>n g m. js_index (scene_children s) 3 = Some n \<and> kind n = Mesh g m \<longrightarrow>
        update_tri e t s =
          (None, render_cameras ((update_head e s)\<lparr>scene_children := (scene_children s)
             [3 := n\<lparr>rotation_y := t * 0.0005,
                     kind := Mesh g (m\<lparr>uniform_time := t * 0.005,
                                       uniform_sineTime := sin (t * 0.005 * 0.05)\<rparr>)\<rparr>]\<rparr>)))
   \<and> (\<forall>n. js_index (scene_children s) 3 = Some n \<and> \<not> is_mesh (kind n) \<longrightarrow>
        update_tri e t s =
          (Some TypeError, (update_head e s)\<lparr>scene_children := (scene_children s)
             [3 := n\<lparr>rotation_y := t * 0.0005\<rparr>]\<rparr>))"
proof (intro conjI allI impI)
  assume "length (scene_children s) < 4"
  then show "js_index (scene_children (update_head e s)) 3 = None"
    and "update_tri e t s = (Some TypeError, update_head e s)"
    and "rendered (renderer (snd (update_tri e t s))) = rendered (renderer s)"
    by (simp_all add: update_tri_def js_index_def)
next
  fix n g m
  assume "js_index (scene_children s) 3 = Some n \<and> kind n = Mesh g m"
  then show "update_tri e t s =
          (None, render_cameras ((update_head e s)\<lparr>scene_children := (scene_children s)
             [3 := n\<lparr>rotation_y := t * 0.0005,
                     kind := Mesh g (m\<lparr>uniform_time := t * 0.005,
                                       uniform_sineTime := sin (t * 0.005 * 0.05)\<rparr>)\<rparr>]\<rparr>))"
    by (simp add: update_tri_def Let_def)
next
  fix n
  assume "js_index (scene_children s) 3 = Some n \<and> \<not> is_mesh (kind n)"
  then show "update_tri e t s =
          (Some TypeError, (update_head e s)\<lparr>scene_children := (scene_children s)
             [3 := n\<lparr>rotation_y := t * 0.0005\<rparr>]\<rparr>)"
    by (cases "kind n") (simp_all add: update_tri_def Let_def)
qed

lemma add_lights_kinds:
  "scene_kinds (add_lights e s) = scene_kinds s @ map Light (lights e)"
proof -
  have "\<And>s. scene_kinds (foldl (\<lambda>s1 l. scene_add \<lparr>kind = Light l, rotation_y = 0\<rparr> s1) s ls)
      = scene_kinds s @ map Light ls" for ls
    by (induction ls) (simp_all add: scene_kinds_def scene_add_def)
  then show ?thesis by (simp add: add_lights_def)
qed

lemma add_lights_fields [simp]:
  "assets_pending (add_lights e s) = assets_pending s"
  "obj_pending (add_lights e s) = obj_pending s"
  "asset_loads (add_lights e s) = asset_loads s"
  "obj_loads (add_lights e s) = obj_loads s"
  "console (add_lights e s) = console s"
  "renderer (add_lights e s) = renderer s"
proof -
  have "\<And>s. assets_pending (foldl (\<lambda>s1 l. scene_add \<lparr>kind = Light l, rotation_y = 0\<rparr> s1) s ls) = assets_pending s
     \<and> obj_pending (foldl (\<lambda>s1 l. scene_add \<lparr>kind = Light l, rotation_y = 0\<rparr> s1) s ls) = obj_pending s
     \<and> asset_loads (foldl (\<lambda>s1 l. scene_add \<lparr>kind = Light l, rotation_y = 0\<rparr> s1) s ls) = asset_loads s
     \<and> obj_loads (foldl (\<lambda>s1 l. scene_add \<lparr>kind = Light l, rotation_y = 0\<rparr> s1) s ls) = obj_loads s
     \<and> console (foldl (\<lambda>s1 l. scene_add \<lparr>kind = Light l, rotation_y = 0\<rparr> s1) s ls) = console s
     \<and> renderer (foldl (\<lambda>s1 l. scene_add \<lparr>kind = Light l, rotation_y = 0\<rparr> s1) s ls) = renderer s" for ls
    by (induction ls) (simp_all add: scene_add_def)
  then show "assets_pending (add_lights e s) = assets_pending s"
  "obj_pending (add_lights e s) = obj_pending s"
  "asset_loads (add_lights e s) = asset_loads s"
  "obj_loads (add_lights e s) = obj_loads s"
  "console (add_lights e s) = console s"
  "renderer (add_lights e s) = renderer s"
    by (simp_all add: add_lights_def)
qed

lemma startup_kinds_no_mesh: "list_all (\<lambda>k. \<not> is_mesh k) (startup_kinds e)"
  by (simp add: startup_kinds_def list_all_iff) auto

lemma before_first_frame_kinds:
  "scene_kinds (before_first_frame e w h) = startup_kinds e"
  by (simp add: before_first_frame_def Let_def scene_kinds_def [of "_\<lparr>asset_loads := _, assets_pending := _\<rparr>"]
      add_lights_kinds [unfolded scene_kinds_def] startup_kinds_def add_helpers_def scene_add_def page_def)

lemma before_first_frame_fields [simp]:
  "assets_pending (before_first_frame e w h) = True"
  "obj_pending (before_first_frame e w h) = False"
  "asset_loads (before_first_frame e w h) = 1"
  "obj_loads (before_first_frame e w h) = 0"
  "console (before_first_frame e w h) = []"
  "renderer (before_first_frame e w h) = initial_renderer e"
  by (simp_all add: before_first_frame_def Let_def add_helpers_def scene_add_def page_def)

text \<open>A frame of either variant on a scene without a mesh keeps the kinds of the children.\<close>

lemma update_tri_no_mesh:
  assumes "list_all (\<lambda>k. \<not> is_mesh k) (scene_kinds s)"
  shows "fst (update_tri e t s) = Some TypeError
    \<and> scene_kinds (snd (update_tri e t s)) = scene_kinds s
    \<and> rendered (renderer (snd (update_tri e t s))) = rendered (renderer s)
    \<and> assets_pending (snd (update_tri e t s)) = assets_pending s
    \<and> obj_pending (snd (update_tri e t s)) = obj_pending s
    \<and> asset_loads (snd (update_tri e t s)) = asset_loads s
    \<and> obj_loads (snd (update_tri e t s)) = obj_loads s
    \<and> console (snd (update_tri e t s)) = console s"
proof (cases "3 < length (scene_children s)")
  case False
  then show ?thesis
    by (simp add: update_tri_def js_index_def scene_kinds_def)
next
  case True
  let ?n = "scene_children s ! 3"
  from assms True have nm: "\<not> is_mesh (kind ?n)"
    by (simp add: scene_kinds_def list_all_length)
  have k: "map kind ((scene_children s)[3 := ?n\<lparr>rotation_y := t * 0.0005\<rparr>]) = map kind (scene_children s)"
    using True by (simp add: map_update list_update_same_conv)
  from nm True k show ?thesis
    by (cases "kind ?n") (simp_all add: update_tri_def js_index_def Let_def scene_kinds_def)
qed

lemma update_obj_fields:
  "fst (update_obj e t s) = None
    \<and> scene_children (snd (update_obj e t s)) = scene_children s
    \<and> assets_pending (snd (update_obj e t s)) = assets_pending s
    \<and> obj_pending (snd (update_obj e t s)) = obj_pending s
    \<and> asset_loads (snd (update_obj e t s)) = asset_loads s
    \<and> obj_loads (snd (update_obj e t s)) = obj_loads s
    \<and> console (snd (update_obj e t s)) = console s"
  by (simp add: update_obj_def)

lemma top_level_fields [simp]:
  "scene_children (top_level r) = scene_children (snd r)"
  "assets_pending (top_level r) = assets_pending (snd r)"
  "obj_pending (top_level r) = obj_pending (snd r)"
  "asset_loads (top_level r) = asset_loads (snd r)"
  "obj_loads (top_level r) = obj_loads (snd r)"
  "console (top_level r) = console (snd r)"
  "renderer (top_level r) = renderer (snd r)"
  by (simp_all add: top_level_def split: prod.splits option.splits)

lemma update_no_mesh:
  assumes "list_all (\<lambda>k. \<not> is_mesh k) (scene_kinds s)"
  shows "scene_kinds (snd (update var e t s)) = scene_kinds s
    \<and> assets_pending (snd (update var e t s)) = assets_pending s
    \<and> obj_pending (snd (update var e t s)) = obj_pending s
    \<and> asset_loads (snd (update var e t s)) = asset_loads s
    \<and> obj_loads (snd (update var e t s)) = obj_loads s
    \<and> console (snd (update var e t s)) = console s"
proof (cases var)
  case ObjVariant
  then show ?thesis using update_obj_fields [of e t s]
    by (simp add: update_def scene_kinds_def)
next
  case TriangleVariant
  then show ?thesis using update_tri_no_mesh [OF assms, of e t]
    by (simp add: update_def)
qed

lemma top_level_kinds [simp]: "scene_kinds (top_level r) = scene_kinds (snd r)"
  by (simp add: scene_kinds_def)

subsection \<open>Startup and a rejected manifest\<close>

lemma startup_fields:
  "scene_kinds (startup var e w h now) = startup_kinds e
   \<and> assets_pending (startup var e w h now)
   \<and> \<not> obj_pending (startup var e w h now)
   \<and> asset_loads (startup var e w h now) = 1
   \<and> obj_loads (startup var e w h now) = 0
   \<and> console (startup var e w h now) = []"
proof -
  have "list_all (\<lambda>k. \<not> is_mesh k) (scene_kinds (before_first_frame e w h))"
    by (simp add: before_first_frame_kinds startup_kinds_no_mesh)
  from update_no_mesh [OF this, of var e now] show ?thesis
    by (simp add: startup_def constructor_def before_first_frame_kinds)
qed

lemma onResize_fields [simp]:
  "scene_children (onResize s) = scene_children s"
  "assets_pending (onResize s) = assets_pending s"
  "obj_pending (onResize s) = obj_pending s"
  "asset_loads (onResize s) = asset_loads s"
  "obj_loads (onResize s) = obj_loads s"
  "console (onResize s) = console s"
  by (simp_all add: onResize_def Let_def)

lemma dispatch_settled:
  assumes "\<not> assets_pending s" and "\<not> obj_pending s"
    and "list_all (\<lambda>k. \<not> is_mesh k) (scene_kinds s)"
  shows "\<not> assets_pending (dispatch var e ev s) \<and> \<not> obj_pending (dispatch var e ev s)
    \<and> scene_kinds (dispatch var e ev s) = scene_kinds s
    \<and> asset_loads (dispatch var e ev s) = asset_loads s
    \<and> obj_loads (dispatch var e ev s) = obj_loads s"
proof (cases ev)
  case (AnimationFrame t)
  let ?s = "s\<lparr>animation_requests := animation_requests s - 1\<rparr>"
  have "list_all (\<lambda>k. \<not> is_mesh k) (scene_kinds ?s)"
    using assms(3) by (simp add: scene_kinds_def)
  from update_no_mesh [OF this, of var e t] assms(1,2) AnimationFrame show ?thesis
    by (simp add: scene_kinds_def)
qed (use assms in \<open>simp_all add: scene_kinds_def console_log_def\<close>)

lemma run_settled:
  assumes "\<not> assets_pending s" and "\<not> obj_pending s"
    and "list_all (\<lambda>k. \<not> is_mesh k) (scene_kinds s)"
  shows "scene_kinds (run var e evs s) = scene_kinds s
    \<and> asset_loads (run var e evs s) = asset_loads s
    \<and> obj_loads (run var e evs s) = obj_loads s"
  using assms
proof (induction evs arbitrary: s)
  case Nil
  then show ?case by simp
next
  case (Cons ev evs)
  from dispatch_settled [OF Cons.prems, of var e ev]
  have d: "\<not> assets_pending (dispatch var e ev s)" "\<not> obj_pending (dispatch var e ev s)"
    "scene_kinds (dispatch var e ev s) = scene_kinds s"
    "asset_loads (dispatch var e ev s) = asset_loads s"
    "obj_loads (dispatch var e ev s) = obj_loads s"
    by simp_all
  from d(3) Cons.prems(3)
  have "list_all (\<lambda>k. \<not> is_mesh k) (scene_kinds (dispatch var e ev s))" by simp
  from Cons.IH [OF d(1) d(2) this] d show ?case by simp
qed

text \<open>
  C4. When the manifest load rejects, the handler appends one warning to the console
  and changes nothing else (the promise is settled). Whatever events follow, the
  children of the scene remain the helpers and lights the constructor added, the asset
  loader has been called once and no load of the reference model is ever started.
\<close>

theorem manifest_rejection:
  "dispatch var e (AssetsRejected err) (startup var e w h now) =
     (startup var e w h now)\<lparr>assets_pending := False,
        console := console (startup var e w h now) @ [Warn err]\<rparr>
   \<and> console (dispatch var e (AssetsRejected err) (startup var e w h now)) = [Warn err]
   \<and> scene_kinds (run var e (AssetsRejected err # evs) (startup var e w h now)) =
       (if DEV_HELPERS e then [GridHelper 10 10, AxisHelper] else []) @ map Light (lights e)
   \<and> asset_loads (run var e (AssetsRejected err # evs) (startup var e w h now)) = 1
   \<and> obj_loads (run var e (AssetsRejected err # evs) (startup var e w h now)) = 0"
proof -
  let ?s0 = "startup var e w h now"
  let ?s1 = "?s0\<lparr>assets_pending := False, console := console ?s0 @ [Warn err]\<rparr>"
  note f = startup_fields [of var e w h now]
  have eq: "dispatch var e (AssetsRejected err) ?s0 = ?s1"
    using f by (simp add: onAssetsError_def console_warn_def)
  have settled: "\<not> assets_pending ?s1" "\<not> obj_pending ?s1"
    using f by simp_all
  have kinds: "scene_kinds ?s1 = startup_kinds e"
    using f by (simp add: scene_kinds_def)
  have nm: "list_all (\<lambda>k. \<not> is_mesh k) (scene_kinds ?s1)"
    by (simp only: kinds startup_kinds_no_mesh)
  have counts: "asset_loads ?s1 = 1" "obj_loads ?s1 = 0" "console ?s1 = [Warn err]"
    using f by simp_all
  have r: "run var e (AssetsRejected err # evs) ?s0 = run var e evs ?s1"
    by (simp only: run.simps eq)
  from run_settled [OF settled nm, of var e evs] kinds counts
  have "scene_kinds (run var e evs ?s1) = startup_kinds e"
    and "asset_loads (run var e evs ?s1) = 1" and "obj_loads (run var e evs ?s1) = 0"
    by simp_all
  with eq counts(3) show ?thesis
    by (simp only: r startup_kinds_def)
qed

text \<open>
  C3, in the triangle variant, for the first frame (the call of \<open>update\<close> in the
  constructor) with the helpers and one light in the scene and the debug flag off: the
  frame throws at \<open>scene.children[3]\<close> and issues no render pass, where the variant that
  samples the model issues one pass for the main camera on the full window.
\<close>

theorem triangle_first_frame:
  "debugCamera (before_first_frame example_env 800 600) = False
   \<and> scene_kinds (before_first_frame example_env 800 600) =
       [GridHelper 10 10, AxisHelper, Light ''ambient'']
   \<and> constructor TriangleVariant example_env 800 600 0 =
       (Some TypeError, update_head example_env (before_first_frame example_env 800 600))
   \<and> rendered (renderer (snd (constructor TriangleVariant example_env 800 600 0))) = []
   \<and> rendered (renderer (snd (constructor ObjVariant example_env 800 600 0))) =
       [(Main, (0, 0, 800, 600), (0, 0, 800, 600))]"
proof -
  let ?s = "before_first_frame example_env 800 600"
  have k: "scene_kinds ?s = [GridHelper 10 10, AxisHelper, Light ''ambient'']"
    by (simp add: before_first_frame_kinds startup_kinds_def example_env_def)
  then have len: "length (scene_children ?s) = 3"
    unfolding scene_kinds_def using length_map [of kind "scene_children ?s"] by simp
  have flag: "debugCamera ?s = False" and w: "innerWidth ?s = 800" and h: "innerHeight ?s = 600"
    by (simp_all add: before_first_frame_def Let_def add_lights_def add_helpers_def
        scene_add_def page_def example_env_def)
  have r: "rendered (renderer ?s) = []"
    by (simp add: example_env_def example_renderer_def)
  have tri: "update_tri example_env 0 ?s = (Some TypeError, update_head example_env ?s)"
    using len by (simp add: update_tri_def js_index_def)
  have obj: "rendered (renderer (snd (update_obj example_env 0 ?s))) =
       [(Main, (0, 0, 800, 600), (0, 0, 800, 600))]"
    using update_obj_passes [of example_env 0 ?s] flag w h r by simp
  from k flag tri obj r show ?thesis
    by (simp add: constructor_def update_def)
qed

subsection \<open>The flattening of the reference model\<close>

lemma flatten_positions_eq:
  "flatten_positions a i acc =
     acc @ map (\<lambda>k. point_at a (i + 3 * k)) [0..<(length a - i + 2) div 3]"
proof (induction a i acc rule: flatten_positions.induct)
  case (1 a i acc)
  show ?case
  proof (cases "i < length a")
    case True
    then have n: "(length a - i + 2) div 3 = Suc ((length a - (i + 3) + 2) div 3)"
      by arith
    have "flatten_positions a i acc = flatten_positions a (i + 3) (acc @ [point_at a i])"
      using True by (simp add: flatten_positions.simps [of a i acc] point_at_def)
    also have "\<dots> = (acc @ [point_at a i]) @
        map (\<lambda>k. point_at a (i + 3 + 3 * k)) [0..<(length a - (i + 3) + 2) div 3]"
      using "1.IH" [OF True] by (simp add: point_at_def)
    also have "\<dots> = acc @ map (\<lambda>k. point_at a (i + 3 * k)) [0..<(length a - i + 2) div 3]"
      by (simp only: n map_upt_Suc) (simp add: add.assoc add.commute)
    finally show ?thesis .
  next
    case False
    then have "(length a - i + 2) div 3 = 0" by simp
    with False show ?thesis
      by (simp add: flatten_positions.simps [of a i acc])
  qed
qed

lemma flatten_positions_acc:
  "flatten_positions a i acc = acc @ flatten_positions a i []"
  by (simp add: flatten_positions_eq [of a i acc] flatten_positions_eq [of a i "[]"])

lemma flatten_positions_length:
  "length (flatten_positions a 0 []) = (length a + 2) div 3"
  by (simp add: flatten_positions_eq)

lemma flatten_positions_nth:
  "k < (length a + 2) div 3 \<Longrightarrow> flatten_positions a 0 [] ! k = point_at a (3 * k)"
  by (simp add: flatten_positions_eq)

lemma defined_point_at: "defined_point (point_at a j) = (j + 2 < length a)"
  by (simp add: defined_point_def point_at_def typed_index_def)

lemma flatten_positions_defined:
  "list_all defined_point (flatten_positions a 0 []) = (3 dvd length a)"
proof -
  have "list_all defined_point (flatten_positions a 0 []) =
      (\<forall>k < (length a + 2) div 3. 3 * k + 2 < length a)"
    by (simp add: list_all_length flatten_positions_length flatten_positions_nth defined_point_at)
  also have "\<dots> = (3 dvd length a)"
  proof
    assume h: "\<forall>k < (length a + 2) div 3. 3 * k + 2 < length a"
    show "3 dvd length a"
    proof (rule ccontr)
      assume "\<not> 3 dvd length a"
      then have "length a div 3 < (length a + 2) div 3" by presburger
      with h have "3 * (length a div 3) + 2 < length a" by blast
      then show False by presburger
    qed
  next
    assume "3 dvd length a"
    show "\<forall>k < (length a + 2) div 3. 3 * k + 2 < length a"
    proof (intro allI impI)
      fix k assume "k < (length a + 2) div 3"
      with \<open>3 dvd length a\<close> show "3 * k + 2 < length a" by presburger
    qed
  qed
  finally show ?thesis .
qed

lemma children_forEach_eq:
  "children_forEach cs acc =
     (map (\<lambda>c. c\<lparr>wireframe := True\<rparr>) cs,
      acc @ concat (map (\<lambda>c. flatten_positions (position_array c) 0 []) cs))"
proof (induction cs arbitrary: acc)
  case Nil
  then show ?case by simp
next
  case (Cons c cs)
  then show ?case
    by (simp add: Let_def flatten_positions_acc [of "position_array c" 0 acc])
qed

lemma children_forEach_defined:
  "list_all defined_point (snd (children_forEach cs [])) =
     list_all (\<lambda>c. 3 dvd length (position_array c)) cs"
  by (induction cs) (simp_all add: children_forEach_eq flatten_positions_defined)

lemma flatten_last:
  assumes "0 < length a"
  shows "last (flatten_positions a 0 []) = point_at a (3 * ((length a - 1) div 3))"
proof -
  let ?n = "(length a + 2) div 3"
  from assms have pos: "0 < ?n" by arith
  then have ne: "flatten_positions a 0 [] \<noteq> []"
    using flatten_positions_length [of a] by auto
  have "last (flatten_positions a 0 []) = flatten_positions a 0 [] ! (?n - 1)"
    using last_conv_nth [OF ne] by (simp add: flatten_positions_length)
  also have "\<dots> = point_at a (3 * (?n - 1))"
    using pos by (simp add: flatten_positions_nth)
  also have "?n - 1 = (length a - 1) div 3" using assms by arith
  finally show ?thesis .
qed

text \<open>
  C10. The flattening pushes one point per started group of three positions. All
  three reads of every pass are inside the array exactly when the length of the array
  is a multiple of 3; otherwise the last pass reads past the end: two elements when
  the remainder is 1, one element when it is 2 (the components read there are
  \<open>undefined\<close>). For the whole model every point is fully read from its array exactly
  when the length of every child's position array is divisible by 3.
\<close>

theorem flatten_stride:
  "length (flatten_positions a 0 []) = (length a + 2) div 3
   \<and> list_all defined_point (flatten_positions a 0 []) = (3 dvd length a)
   \<and> (length a mod 3 = 1 \<longrightarrow>
        last (flatten_positions a 0 []) = Point (Num (a ! (length a - 1))) Undefined Undefined)
   \<and> (length a mod 3 = 2 \<longrightarrow>
        last (flatten_positions a 0 []) =
          Point (Num (a ! (length a - 2))) (Num (a ! (length a - 1))) Undefined)
   \<and> list_all defined_point (snd (children_forEach cs [])) =
        list_all (\<lambda>c. 3 dvd length (position_array c)) cs"
proof (intro conjI impI)
  assume m: "length a mod 3 = 1"
  then have p: "0 < length a" by arith
  from m have i: "3 * ((length a - 1) div 3) = length a - 1" by presburger
  from m have j: "length a - 1 < length a" "\<not> length a - 1 + 1 < length a"
    "\<not> length a - 1 + 2 < length a" by arith+
  have "point_at a (length a - 1) = Point (Num (a ! (length a - 1))) Undefined Undefined"
    unfolding point_at_def typed_index_def using j by (simp only: if_True if_False)
  then show "last (flatten_positions a 0 []) = Point (Num (a ! (length a - 1))) Undefined Undefined"
    by (simp only: flatten_last [OF p] i)
next
  assume m: "length a mod 3 = 2"
  then have p: "0 < length a" by arith
  from m have i: "3 * ((length a - 1) div 3) = length a - 2" by presburger
  from m have j: "length a - 2 + 1 = length a - 1" "length a - 2 < length a" "length a - 1 < length a"
    "\<not> length a - 2 + 2 < length a" by arith+
  have "point_at a (length a - 2) =
      Point (Num (a ! (length a - 2))) (Num (a ! (length a - 1))) Undefined"
    unfolding point_at_def typed_index_def using j by (simp only: if_True if_False)
  then show "last (flatten_positions a 0 []) =
          Point (Num (a ! (length a - 2))) (Num (a ! (length a - 1))) Undefined"
    by (simp only: flatten_last [OF p] i)
qed (simp_all add: flatten_positions_length flatten_positions_defined children_forEach_defined)

theorem flatten_stride_witness:
  "last (flatten_positions [1, 2, 3, 4] 0 []) = Point (Num 4) Undefined Undefined
   \<and> last (flatten_positions [1, 2, 3, 4, 5] 0 []) = Point (Num 4) (Num 5) Undefined
   \<and> \<not> list_all defined_point (flatten_positions [1, 2, 3, 4] 0 [])
   \<and> list_all defined_point (flatten_positions [1, 2, 3] 0 [])"
  using flatten_stride [of "[1, 2, 3, 4]" "[]"] flatten_stride [of "[1, 2, 3, 4, 5]" "[]"]
    flatten_stride [of "[1, 2, 3]" "[]"]
  by simp presburger

subsection \<open>The instance loops and the builder\<close>

lemma normalize_half:
  "Vector4_length (Vector4 0.5 0.5 0.5 0.5) = 1
   \<and> Vector4_normalize (Vector4 0.5 0.5 0.5 0.5) = Vector4 0.5 0.5 0.5 0.5"
proof -
  have l: "Vector4_length (Vector4 0.5 0.5 0.5 0.5) = 1"
    by (simp add: Vector4_length_def)
  then show ?thesis
    by (simp add: Vector4_normalize_def Let_def Vector4_multiplyScalar_def)
qed

lemma instance_obj_ok:
  assumes "i < length pool"
  shows "instance_obj e pool i (a, b + 4 * i) =
     (None, a\<lparr>offsets := offsets a @ scaled_point (pool ! i),
              colors := colors a @ obj_color e b i,
              orientationsStart := orientationsStart a @ half_quaternion,
              orientationsEnd := orientationsEnd a @ half_quaternion\<rparr>, b + 4 * Suc i)"
  using assms normalize_half
  by (simp add: instance_obj_def js_index_def Let_def scaled_point_def obj_color_def
      half_quaternion_def vector_components_def add.assoc)

lemma instance_obj_fail:
  assumes "\<not> i < length pool"
  shows "instance_obj e pool i st = (Some TypeError, st)"
  using assms by (simp add: instance_obj_def js_index_def)

lemma instances_loop_obj_ok:
  assumes "n \<le> length pool"
  shows "n - i = d \<Longrightarrow> i \<le> n \<Longrightarrow> instances_loop_obj e pool i n (a, b + 4 * i) =
     (None, a\<lparr>offsets := offsets a @ concat (map (\<lambda>j. scaled_point (pool ! j)) [i..<n]),
              colors := colors a @ concat (map (obj_color e b) [i..<n]),
              orientationsStart := orientationsStart a @ concat (replicate (n - i) half_quaternion),
              orientationsEnd := orientationsEnd a @ concat (replicate (n - i) half_quaternion)\<rparr>,
      b + 4 * n)"
proof (induction d arbitrary: i a)
  case 0
  then have "i = n" by simp
  then show ?case
    by (simp add: instances_loop_obj.simps [of e pool n n])
next
  case (Suc d)
  then have lt: "i < n" and d: "n - Suc i = d" and le: "Suc i \<le> n" by simp_all
  from lt assms have ip: "i < length pool" by simp
  have r: "n - i = Suc (n - Suc i)" using lt by simp
  show ?case
    using lt
    by (simp add: instances_loop_obj.simps [of e pool i n] instance_obj_ok [OF ip]
        Suc.IH [OF d le, simplified] upt_conv_Cons [of i n] r del: replicate.simps)
      (simp add: r)
qed

lemma instances_loop_obj_stops:
  assumes "length pool < n"
  shows "length pool - i = d \<Longrightarrow> i \<le> length pool \<Longrightarrow>
     instances_loop_obj e pool i n (a, b + 4 * i) =
       (Some TypeError, snd (instances_loop_obj e pool i (length pool) (a, b + 4 * i)))"
proof (induction d arbitrary: i a)
  case 0
  then have i: "i = length pool" by simp
  with assms show ?case
    by (simp add: instances_loop_obj.simps [of e pool "length pool" n]
        instances_loop_obj.simps [of e pool "length pool" "length pool"] instance_obj_fail)
next
  case (Suc d)
  then have lt: "i < length pool" and d: "length pool - Suc i = d" and le: "Suc i \<le> length pool"
    by simp_all
  from lt assms have ln: "i < n" by simp
  show ?case
    using lt ln
    by (simp add: instances_loop_obj.simps [of e pool i n]
        instances_loop_obj.simps [of e pool i "length pool"] instance_obj_ok [OF lt]
        Suc.IH [OF d le, simplified])
qed

lemma instances_loop_obj_fails:
  assumes "length pool < n"
  shows "fst (instances_loop_obj e pool 0 n (a, b)) = Some TypeError"
  using instances_loop_obj_stops [OF assms, of 0 "length pool" e a b] by simp

lemma instance_tri_eq:
  "instance_tri e (a, b + 15 * i) =
     (a\<lparr>offsets := offsets a @ tri_offset e b i,
        colors := colors a @ tri_color e b i,
        orientationsStart := orientationsStart a @ tri_start e b i,
        orientationsEnd := orientationsEnd a @ tri_end e b i\<rparr>, b + 15 * Suc i)"
  by (simp add: instance_tri_def Let_def tri_offset_def tri_color_def tri_start_def tri_end_def
      add.assoc)

lemma instances_loop_tri_eq:
  "n - i = d \<Longrightarrow> i \<le> n \<Longrightarrow> instances_loop_tri e i n (a, b + 15 * i) =
     (a\<lparr>offsets := offsets a @ concat (map (tri_offset e b) [i..<n]),
        colors := colors a @ concat (map (tri_color e b) [i..<n]),
        orientationsStart := orientationsStart a @ concat (map (tri_start e b) [i..<n]),
        orientationsEnd := orientationsEnd a @ concat (map (tri_end e b) [i..<n])\<rparr>,
      b + 15 * n)"
proof (induction d arbitrary: i a)
  case 0
  then have "i = n" by simp
  then show ?case
    by (simp add: instances_loop_tri.simps [of e n n])
next
  case (Suc d)
  then have lt: "i < n" and d: "n - Suc i = d" and le: "Suc i \<le> n" by simp_all
  show ?case
    using lt
    by (simp add: instances_loop_tri.simps [of e i n] instance_tri_eq
        Suc.IH [OF d le, simplified] upt_conv_Cons [of i n])
qed

text \<open>Items of an array built from blocks of equal length.\<close>

lemma length_concat_blocks:
  "(\<And>j. j < n \<Longrightarrow> length (f j) = m) \<Longrightarrow> length (concat (map f [0..<n])) = m * n"
  by (induction n) simp_all

lemma item_concat_blocks:
  assumes len: "\<And>j. j < n \<Longrightarrow> length (f j) = m" and i: "i < n"
  shows "item m (concat (map f [0..<n])) i = f i"
proof -
  have split: "[0..<n] = [0..<i] @ i # [Suc i..<n]"
    using i by (metis upt_add_eq_append upt_conv_Cons le0 less_imp_le_nat add_0 le_add_diff_inverse)
  have l: "length (concat (map f [0..<i])) = m * i"
    using len i by (intro length_concat_blocks) simp
  have "concat (map f [0..<n]) = concat (map f [0..<i]) @ f i @ concat (map f [Suc i..<n])"
    by (subst split) simp
  then show ?thesis
    using l len [OF i] by (simp add: item_def)
qed

lemma item_replicate_blocks:
  assumes "length x = m" and "i < n"
  shows "item m (concat (replicate n x)) i = x"
proof -
  have "concat (replicate n x) = concat (map (\<lambda>j. x) [0..<n])"
    by (simp add: map_replicate_trivial)
  then show ?thesis
    using item_concat_blocks [of n "\<lambda>j. x" m i] assms by simp
qed

lemma item_map: "item m (map f xs) i = map f (item m xs i)"
  by (simp add: item_def take_map drop_map)

lemma item_Float32Array: "item m (Float32Array xs) i = Float32Array (item m xs i)"
  by (simp add: Float32Array_def item_map)

lemma children_forEach_pool:
  "children_forEach (children obj) [] =
     (map (\<lambda>c. c\<lparr>wireframe := True\<rparr>) (children obj), sample_pool obj)"
  by (simp add: sample_pool_def children_forEach_eq)

lemma objectInit_obj_eq:
  assumes "targetObject s = Some obj" and "instances_obj \<le> length (sample_pool obj)"
    and "vertexShader_element e = Some vs" and "fragmentShader_element e = Some fs"
  shows "objectInit_obj e s =
     (None, scene_add (new_Mesh (obj_geometry e obj (random_calls s)) (particle_material vs fs False))
        (s\<lparr>targetObject := Some (obj\<lparr>children := map (\<lambda>c. c\<lparr>wireframe := True\<rparr>) (children obj)\<rparr>),
           random_calls := random_calls s + 4 * instances_obj\<rparr>))"
proof -
  have loop: "instances_loop_obj e (sample_pool obj) 0 instances_obj (empty_arrays, random_calls s) =
     (None, \<lparr>offsets = concat (map (\<lambda>j. scaled_point (sample_pool obj ! j)) [0..<instances_obj]),
             colors = concat (map (obj_color e (random_calls s)) [0..<instances_obj]),
             orientationsStart = concat (replicate instances_obj half_quaternion),
             orientationsEnd = concat (replicate instances_obj half_quaternion)\<rparr>,
      random_calls s + 4 * instances_obj)"
    using instances_loop_obj_ok [OF assms(2), of 0 instances_obj e empty_arrays "random_calls s"]
    by (simp add: empty_arrays_def)
  show ?thesis
    using assms(1,3,4)
    by (simp add: objectInit_obj_def children_forEach_pool loop Let_def obj_geometry_def
        particle_material_def)
qed

lemma objectInit_obj_short_pool:
  assumes "targetObject s = Some obj" and "length (sample_pool obj) < instances_obj"
  shows "fst (objectInit_obj e s) = Some TypeError
    \<and> scene_children (snd (objectInit_obj e s)) = scene_children s"
proof -
  obtain a k where "instances_loop_obj e (sample_pool obj) 0 instances_obj (empty_arrays, random_calls s)
      = (Some TypeError, a, k)"
    using instances_loop_obj_fails [OF assms(2), of e empty_arrays "random_calls s"]
    by (metis fst_conv prod.exhaust)
  then show ?thesis
    using assms(1)
    by (simp add: objectInit_obj_def children_forEach_pool Let_def)
qed

lemma objectInit_obj_None:
  assumes "fst (objectInit_obj e s) = None"
  shows "\<exists>obj vs fs. targetObject s = Some obj \<and> instances_obj \<le> length (sample_pool obj)
    \<and> vertexShader_element e = Some vs \<and> fragmentShader_element e = Some fs"
proof (cases "targetObject s")
  case None
  with assms show ?thesis by (simp add: objectInit_obj_def)
next
  case (Some obj)
  have pool: "instances_obj \<le> length (sample_pool obj)"
  proof (rule ccontr)
    assume "\<not> instances_obj \<le> length (sample_pool obj)"
    then have "length (sample_pool obj) < instances_obj" by simp
    from objectInit_obj_short_pool [OF Some this, of e] assms show False by simp
  qed
  obtain a k where loop: "instances_loop_obj e (sample_pool obj) 0 instances_obj
      (empty_arrays, random_calls s) = (None, a, k)"
    using instances_loop_obj_ok [OF pool, of 0 instances_obj e empty_arrays "random_calls s"]
    by simp
  from assms Some loop obtain vs where vs: "vertexShader_element e = Some vs"
    by (cases "vertexShader_element e")
      (simp_all add: objectInit_obj_def children_forEach_pool Let_def)
  from assms Some loop vs obtain fs where "fragmentShader_element e = Some fs"
    by (cases "fragmentShader_element e")
      (simp_all add: objectInit_obj_def children_forEach_pool Let_def)
  with Some pool vs show ?thesis by blast
qed

lemma objectInit_tri_eq:
  assumes "vertexShader_element e = Some vs" and "fragmentShader_element e = Some fs"
  shows "objectInit_tri e s =
     (None, console_log ''scene''
        (scene_add (new_Mesh (tri_geometry e (random_calls s)) (particle_material vs fs True))
           (s\<lparr>random_calls := random_calls s + 15 * instances_tri\<rparr>)))"
proof -
  have loop: "instances_loop_tri e 0 instances_tri (empty_arrays, random_calls s) =
     (\<lparr>offsets = concat (map (tri_offset e (random_calls s)) [0..<instances_tri]),
       colors = concat (map (tri_color e (random_calls s)) [0..<instances_tri]),
       orientationsStart = concat (map (tri_start e (random_calls s)) [0..<instances_tri]),
       orientationsEnd = concat (map (tri_end e (random_calls s)) [0..<instances_tri])\<rparr>,
      random_calls s + 15 * instances_tri)"
    using instances_loop_tri_eq [of instances_tri 0 instances_tri e empty_arrays "random_calls s"]
    by (simp add: empty_arrays_def)
  show ?thesis
    using assms
    by (simp add: objectInit_tri_def loop Let_def tri_geometry_def particle_material_def)
qed

lemma objectInit_tri_None:
  assumes "fst (objectInit_tri e s) = None"
  shows "\<exists>vs fs. vertexShader_element e = Some vs \<and> fragmentShader_element e = Some fs"
  using assms
  by (cases "vertexShader_element e"; cases "fragmentShader_element e")
    (simp_all add: objectInit_tri_def Let_def split: prod.splits)

lemma added_mesh_scene_add [simp]:
  "added_mesh (scene_add (new_Mesh g m) s) = Some (g, m)"
  by (simp add: added_mesh_def scene_add_def new_Mesh_def)

lemma added_mesh_console_log [simp]: "added_mesh (console_log t s) = added_mesh s"
  by (simp add: added_mesh_def console_log_def)

subsection \<open>The instances of the particle field\<close>

lemma obj_color_range:
  assumes "\<forall>k. 0 \<le> Math_random e k \<and> Math_random e k < 1"
  shows "length (obj_color e b i) = 4 \<and> list_all (\<lambda>c. 0 \<le> c \<and> c < 1) (obj_color e b i)"
  using assms by (simp add: obj_color_def)

lemma tri_color_range:
  assumes "\<forall>k. 0 \<le> Math_random e k \<and> Math_random e k < 1"
  shows "length (tri_color e b i) = 4 \<and> list_all (\<lambda>c. 0 \<le> c \<and> c < 1) (tri_color e b i)"
  using assms by (simp add: tri_color_def)

lemma block_lengths [simp]:
  "length (scaled_point p) = 3" "length (obj_color e b i) = 4" "length half_quaternion = 4"
  "length (tri_offset e b i) = 3" "length (tri_color e b i) = 4"
  "length (tri_start e b i) = 4" "length (tri_end e b i) = 4"
  by (simp_all add: scaled_point_def obj_color_def half_quaternion_def tri_offset_def
      tri_color_def tri_start_def tri_end_def vector_components_def)

lemma field_obj:
  assumes "targetObject s = Some obj" and "instances_obj \<le> length (sample_pool obj)"
    and "vertexShader_element e = Some vs" and "fragmentShader_element e = Some fs"
    and "i < instances_obj"
  shows "field_count (snd (objectInit_obj e s)) = Some instances_obj"
    and "field_offset (snd (objectInit_obj e s)) i =
      Float32Array (scaled_point (sample_pool obj ! i))"
    and "field_color (snd (objectInit_obj e s)) i =
      Float32Array (map Num (obj_color e (random_calls s) i))"
    and "field_orientationStart (snd (objectInit_obj e s)) i =
      Float32Array (map Num half_quaternion)"
    and "field_orientationEnd (snd (objectInit_obj e s)) i =
      Float32Array (map Num half_quaternion)"
  using assms(5)
  by (simp_all add: objectInit_obj_eq [OF assms(1-4)] field_count_def field_offset_def
      field_color_def field_orientationStart_def field_orientationEnd_def obj_geometry_def
      item_Float32Array item_map item_concat_blocks item_replicate_blocks)

lemma field_tri:
  assumes "vertexShader_element e = Some vs" and "fragmentShader_element e = Some fs"
    and "i < instances_tri"
  shows "field_count (snd (objectInit_tri e s)) = Some instances_tri"
    and "field_offset (snd (objectInit_tri e s)) i =
      Float32Array (tri_offset e (random_calls s) i)"
    and "field_color (snd (objectInit_tri e s)) i =
      Float32Array (map Num (tri_color e (random_calls s) i))"
    and "field_orientationStart (snd (objectInit_tri e s)) i =
      Float32Array (map Num (tri_start e (random_calls s) i))"
    and "field_orientationEnd (snd (objectInit_tri e s)) i =
      Float32Array (map Num (tri_end e (random_calls s) i))"
  using assms(3)
  by (simp_all add: objectInit_tri_eq [OF assms(1,2)] field_count_def field_offset_def
      field_color_def field_orientationStart_def field_orientationEnd_def tri_geometry_def
      item_Float32Array item_map item_concat_blocks)

lemma stored_colors:
  assumes "list_all (\<lambda>c. 0 \<le> c \<and> c < 1) cs"
  shows "list_all stored_in_unit (Float32Array (map Num cs))"
  using assms by (induction cs) (simp_all add: fround_unit)

text \<open>
  C1, as amended. Let every result of the random source lie in [0, 1). In the variant
  that samples the reference model, when the builder succeeds the field has 15012
  instances, and for each instance \<open>i\<close> the pool has an \<open>i\<close>-th sample point; the offset
  stored for the instance is that point multiplied componentwise by 0.01 (for numbers:
  the real product) and converted to single precision; the four colour channels pushed
  are results of the random source, so they lie in [0, 1), and the channels stored are
  their conversions to single precision, which lie in [0, 1]. In the triangle variant
  the field has 5000 instances, the same holds for the colour channels, and the three
  components of the offset are results of the random source minus 0.5, converted to
  single precision.
\<close>

theorem particle_field_instances:
  assumes rnd: "\<forall>k. 0 \<le> Math_random e k \<and> Math_random e k < 1"
  shows "(targetObject s = Some obj \<and> fst (objectInit_obj e s) = None \<and> i < instances_obj \<longrightarrow>
            field_count (snd (objectInit_obj e s)) = Some instances_obj
          \<and> i < length (sample_pool obj)
          \<and> field_offset (snd (objectInit_obj e s)) i =
              Float32Array (scaled_point (sample_pool obj ! i))
          \<and> field_color (snd (objectInit_obj e s)) i =
              Float32Array (map Num
                [Math_random e (random_calls s + 4 * i), Math_random e (random_calls s + 4 * i + 1),
                 Math_random e (random_calls s + 4 * i + 2), Math_random e (random_calls s + 4 * i + 3)])
          \<and> list_all (\<lambda>c. 0 \<le> c \<and> c < 1)
                [Math_random e (random_calls s + 4 * i), Math_random e (random_calls s + 4 * i + 1),
                 Math_random e (random_calls s + 4 * i + 2), Math_random e (random_calls s + 4 * i + 3)]
          \<and> length (field_color (snd (objectInit_obj e s)) i) = 4
          \<and> list_all stored_in_unit (field_color (snd (objectInit_obj e s)) i))
       \<and> scaled_point (Point (Num x1) (Num x2) (Num x3)) =
            [Num (x1 * 0.01), Num (x2 * 0.01), Num (x3 * 0.01)]
       \<and> (fst (objectInit_tri e t) = None \<and> j < instances_tri \<longrightarrow>
            field_count (snd (objectInit_tri e t)) = Some instances_tri
          \<and> field_offset (snd (objectInit_tri e t)) j =
              Float32Array
                [Num (Math_random e (random_calls t + 15 * j) - 0.5),
                 Num (Math_random e (random_calls t + 15 * j + 1) - 0.5),
                 Num (Math_random e (random_calls t + 15 * j + 2) - 0.5)]
          \<and> field_color (snd (objectInit_tri e t)) j =
              Float32Array (map Num
                [Math_random e (random_calls t + 15 * j + 3), Math_random e (random_calls t + 15 * j + 4),
                 Math_random e (random_calls t + 15 * j + 5), Math_random e (random_calls t + 15 * j + 6)])
          \<and> list_all (\<lambda>c. 0 \<le> c \<and> c < 1)
                [Math_random e (random_calls t + 15 * j + 3), Math_random e (random_calls t + 15 * j + 4),
                 Math_random e (random_calls t + 15 * j + 5), Math_random e (random_calls t + 15 * j + 6)]
          \<and> length (field_color (snd (objectInit_tri e t)) j) = 4
          \<and> list_all stored_in_unit (field_color (snd (objectInit_tri e t)) j))"
proof (intro conjI impI)
  assume h: "targetObject s = Some obj \<and> fst (objectInit_obj e s) = None \<and> i < instances_obj"
  with objectInit_obj_None [of e s] obtain vs fs
    where c: "targetObject s = Some obj" "instances_obj \<le> length (sample_pool obj)"
      "vertexShader_element e = Some vs" "fragmentShader_element e = Some fs" "i < instances_obj"
    by auto
  note f = field_obj [OF c]
  let ?cs = "[Math_random e (random_calls s + 4 * i), Math_random e (random_calls s + 4 * i + 1),
       Math_random e (random_calls s + 4 * i + 2), Math_random e (random_calls s + 4 * i + 3)]"
  have cs: "obj_color e (random_calls s) i = ?cs" by (simp add: obj_color_def)
  have range: "list_all (\<lambda>c. 0 \<le> c \<and> c < 1) ?cs" using rnd by simp
  show "field_count (snd (objectInit_obj e s)) = Some instances_obj" by (rule f)
  show "i < length (sample_pool obj)" using c(2,5) by simp
  show "field_offset (snd (objectInit_obj e s)) i =
      Float32Array (scaled_point (sample_pool obj ! i))" by (rule f)
  show "field_color (snd (objectInit_obj e s)) i = Float32Array (map Num ?cs)"
    by (simp only: f cs)
  show "list_all (\<lambda>c. 0 \<le> c \<and> c < 1) ?cs" by (rule range)
  show "length (field_color (snd (objectInit_obj e s)) i) = 4"
    by (simp add: f)
  show "list_all stored_in_unit (field_color (snd (objectInit_obj e s)) i)"
    using stored_colors [OF range] by (simp only: f cs)
next
  show "scaled_point (Point (Num x1) (Num x2) (Num x3)) =
            [Num (x1 * 0.01), Num (x2 * 0.01), Num (x3 * 0.01)]"
    by (simp add: scaled_point_def js_mul_def)
next
  assume h: "fst (objectInit_tri e t) = None \<and> j < instances_tri"
  with objectInit_tri_None [of e t] obtain vs fs
    where c: "vertexShader_element e = Some vs" "fragmentShader_element e = Some fs" "j < instances_tri"
    by auto
  note f = field_tri [OF c]
  let ?cs = "[Math_random e (random_calls t + 15 * j + 3), Math_random e (random_calls t + 15 * j + 4),
       Math_random e (random_calls t + 15 * j + 5), Math_random e (random_calls t + 15 * j + 6)]"
  have cs: "tri_color e (random_calls t) j = ?cs" by (simp add: tri_color_def)
  have range: "list_all (\<lambda>c. 0 \<le> c \<and> c < 1) ?cs" using rnd by simp
  show "field_count (snd (objectInit_tri e t)) = Some instances_tri" by (rule f)
  show "field_offset (snd (objectInit_tri e t)) j =
              Float32Array
                [Num (Math_random e (random_calls t + 15 * j) - 0.5),
                 Num (Math_random e (random_calls t + 15 * j + 1) - 0.5),
                 Num (Math_random e (random_calls t + 15 * j + 2) - 0.5)]"
    by (simp only: f tri_offset_def)
  show "field_color (snd (objectInit_tri e t)) j = Float32Array (map Num ?cs)"
    by (simp only: f cs)
  show "list_all (\<lambda>c. 0 \<le> c \<and> c < 1) ?cs" by (rule range)
  show "length (field_color (snd (objectInit_tri e t)) j) = 4"
    by (simp add: f)
  show "list_all stored_in_unit (field_color (snd (objectInit_tri e t)) j)"
    using stored_colors [OF range] by (simp only: f cs)
qed

subsection \<open>Example states\<close>

lemma add_lights_eq:
  "add_lights e s =
     s\<lparr>scene_children := scene_children s @ map (\<lambda>l. \<lparr>kind = Light l, rotation_y = 0\<rparr>) (lights e)\<rparr>"
proof -
  have "foldl (\<lambda>s1 l. scene_add \<lparr>kind = Light l, rotation_y = 0\<rparr> s1) s ls =
      s\<lparr>scene_children := scene_children s @ map (\<lambda>l. \<lparr>kind = Light l, rotation_y = 0\<rparr>) ls\<rparr>"
    for ls s
    by (induction ls arbitrary: s) (simp_all add: scene_add_def)
  then show ?thesis by (simp add: add_lights_def)
qed

lemma example_before_first_frame:
  "scene_children (before_first_frame example_env 800 600) =
     [\<lparr>kind = GridHelper 10 10, rotation_y = 0\<rparr>, \<lparr>kind = AxisHelper, rotation_y = 0\<rparr>,
      \<lparr>kind = Light ''ambient'', rotation_y = 0\<rparr>]"
  "random_calls (before_first_frame example_env 800 600) = 0"
  "targetObject (before_first_frame example_env 800 600) = None"
  by (simp_all add: before_first_frame_def Let_def add_lights_eq add_helpers_def scene_add_def
      page_def example_env_def)

lemma example_env_fields:
  "vertexShader_element example_env = Some ''vertex''"
  "fragmentShader_element example_env = Some ''fragment''"
  "\<forall>k. 0 \<le> Math_random example_env k \<and> Math_random example_env k < 1"
  "Math_random example_env k = 0"
  by (simp_all add: example_env_def)

lemma loaded_state_fields:
  "targetObject (loaded_state obj) = Some (obj\<lparr>scale := Vector3 0.02 0.02 0.02\<rparr>)"
  "random_calls (loaded_state obj) = 0"
  "scene_children (loaded_state obj) =
     scene_children (before_first_frame example_env 800 600) @ [\<lparr>kind = TargetObject, rotation_y = 0\<rparr>]"
  by (simp_all add: loaded_state_def scene_add_def example_before_first_frame)

lemma sample_pool_scale [simp]: "sample_pool (obj\<lparr>scale := v\<rparr>) = sample_pool obj"
  by (simp add: sample_pool_def)

lemma example_pool:
  "length (sample_pool example_model) = 15012"
  "sample_pool example_model ! 0 = Point (Num 100) (Num 100) (Num 100)"
  by (simp_all add: sample_pool_def children_forEach_eq example_model_def flatten_positions_eq
      point_at_def typed_index_def)

lemma small_pool: "sample_pool small_model = [Point (Num 1) (Num 2) (Num 3)]"
  by (simp add: sample_pool_def children_forEach_eq small_model_def flatten_positions_eq
      point_at_def typed_index_def)

lemma instances_positive: "0 < instances_obj" "0 < instances_tri" "1 < instances_obj"
  "instances_obj = 15012"
  by (simp_all add: instances_obj_def instances_tri_def)

lemma example_success:
  "fst (objectInit_obj example_env (loaded_state example_model)) = None"
  "fst (objectInit_tri example_env (before_first_frame example_env 800 600)) = None"
proof -
  show "fst (objectInit_obj example_env (loaded_state example_model)) = None"
    using objectInit_obj_eq [of "loaded_state example_model"
        "example_model\<lparr>scale := Vector3 0.02 0.02 0.02\<rparr>" example_env "''vertex''" "''fragment''"]
    by (simp add: loaded_state_fields example_env_fields example_pool instances_positive)
  show "fst (objectInit_tri example_env (before_first_frame example_env 800 600)) = None"
    using objectInit_tri_eq [of example_env "''vertex''" "''fragment''"
        "before_first_frame example_env 800 600"]
    by (simp add: example_env_fields)
qed

lemma almost_one_env_fields:
  "vertexShader_element almost_one_env = Some ''vertex''"
  "fragmentShader_element almost_one_env = Some ''fragment''"
  "Math_random almost_one_env k = 1 - 1 / 2 ^ 30"
  by (simp_all add: almost_one_env_def example_env_def)

theorem particle_field_instances_witness:
  "fst (objectInit_obj example_env (loaded_state example_model)) = None
   \<and> field_count (snd (objectInit_obj example_env (loaded_state example_model))) = Some 15012
   \<and> field_offset (snd (objectInit_obj example_env (loaded_state example_model))) 0 =
       [Num 1, Num 1, Num 1]
   \<and> field_color (snd (objectInit_obj example_env (loaded_state example_model))) 0 =
       [Num 0, Num 0, Num 0, Num 0]
   \<and> list_all stored_in_unit
       (field_color (snd (objectInit_obj example_env (loaded_state example_model))) 0)
   \<and> fst (objectInit_tri example_env (before_first_frame example_env 800 600)) = None
   \<and> field_color (snd (objectInit_tri example_env (before_first_frame example_env 800 600))) 0 =
       [Num 0, Num 0, Num 0, Num 0]
   \<and> list_all stored_in_unit
       (field_color (snd (objectInit_tri example_env (before_first_frame example_env 800 600))) 0)"
proof -
  let ?s = "loaded_state example_model"
  let ?obj = "example_model\<lparr>scale := Vector3 0.02 0.02 0.02\<rparr>"
  let ?t = "before_first_frame example_env 800 600"
  from particle_field_instances [OF example_env_fields(3), of ?s ?obj 0 100 100 100 ?t 0]
    example_success
  show ?thesis
    by (simp add: loaded_state_fields instances_positive example_pool example_env_fields(4)
        fround_values stored_in_unit_def)
qed

text \<open>
  C1 as stated fails in the triangle variant: there is no reference model at all, and
  with a random source that returns 0 the offset of instance 0 is (-0.5, -0.5, -0.5).
  It also fails for the colours of the built field, in both variants: a result
  \<open>1 - 2^-30\<close> of the random source lies in [0, 1) and is stored as exactly 1.
\<close>

theorem triangle_offsets_random:
  "fst (objectInit_tri example_env (before_first_frame example_env 800 600)) = None
   \<and> targetObject (snd (objectInit_tri example_env (before_first_frame example_env 800 600))) = None
   \<and> field_offset (snd (objectInit_tri example_env (before_first_frame example_env 800 600))) 0 =
       [Num (- 1 / 2), Num (- 1 / 2), Num (- 1 / 2)]
   \<and> Math_random almost_one_env 3 < 1
   \<and> fst (objectInit_tri almost_one_env (before_first_frame example_env 800 600)) = None
   \<and> field_color (snd (objectInit_tri almost_one_env (before_first_frame example_env 800 600))) 0 =
       [Num 1, Num 1, Num 1, Num 1]
   \<and> fst (objectInit_obj almost_one_env (loaded_state example_model)) = None
   \<and> field_color (snd (objectInit_obj almost_one_env (loaded_state example_model))) 0 =
       [Num 1, Num 1, Num 1, Num 1]"
proof -
  let ?t = "before_first_frame example_env 800 600"
  let ?s = "loaded_state example_model"
  let ?obj = "example_model\<lparr>scale := Vector3 0.02 0.02 0.02\<rparr>"
  note eq = objectInit_tri_eq [OF example_env_fields(1,2), of ?t]
  have off: "field_offset (snd (objectInit_tri example_env ?t)) 0 =
      [Num (- 1 / 2), Num (- 1 / 2), Num (- 1 / 2)]"
    using field_tri(2) [OF example_env_fields(1,2) instances_positive(2), of ?t]
    by (simp add: example_before_first_frame tri_offset_def example_env_fields(4) fround_values)
  have basic: "fst (objectInit_tri example_env ?t) = None
      \<and> targetObject (snd (objectInit_tri example_env ?t)) = None"
    by (simp add: eq console_log_def scene_add_def example_before_first_frame)
  have tri1: "fst (objectInit_tri almost_one_env ?t) = None"
    by (simp add: objectInit_tri_eq [OF almost_one_env_fields(1,2)])
  have col_tri: "field_color (snd (objectInit_tri almost_one_env ?t)) 0 =
      [Num 1, Num 1, Num 1, Num 1]"
    using field_tri(3) [OF almost_one_env_fields(1,2) instances_positive(2), of ?t]
      fround_almost_one
    by (simp add: tri_color_def almost_one_env_fields(3))
  have pool: "instances_obj \<le> length (sample_pool ?obj)"
    by (simp add: example_pool instances_positive)
  have obj1: "fst (objectInit_obj almost_one_env ?s) = None"
    by (simp add: objectInit_obj_eq [OF loaded_state_fields(1) pool almost_one_env_fields(1,2)])
  have col_obj: "field_color (snd (objectInit_obj almost_one_env ?s)) 0 =
      [Num 1, Num 1, Num 1, Num 1]"
    using field_obj(3) [OF loaded_state_fields(1) pool almost_one_env_fields(1,2)
        instances_positive(1)] fround_almost_one
    by (simp add: obj_color_def almost_one_env_fields(3))
  have lt: "Math_random almost_one_env 3 < 1"
    by (simp add: almost_one_env_fields(3))
  from basic off lt tri1 col_tri obj1 col_obj show ?thesis by blast
qed

subsection \<open>A pool that is too small\<close>

text \<open>
  C2. When the flattened pool of the reference model has fewer sample points than the
  15012 instances the builder asks for, the builder throws: \<open>targetOffsets[i]\<close> is
  \<open>undefined\<close> at the first index past the pool, reading its \<open>x\<close> raises a TypeError, and
  no mesh is added to the scene. The same holds for the instance loop with any count
  \<open>n\<close> above the size of the pool, and the loop succeeds when \<open>n\<close> is at most that size.
\<close>

theorem short_pool_raises:
  "(targetObject s = Some obj \<and> length (sample_pool obj) < instances_obj \<longrightarrow>
      js_index (sample_pool obj) (length (sample_pool obj)) = None
    \<and> fst (objectInit_obj e s) = Some TypeError
    \<and> scene_children (snd (objectInit_obj e s)) = scene_children s)
   \<and> (length pool \<le> i \<longrightarrow> instance_obj e pool i st = (Some TypeError, st))
   \<and> (length pool < n \<longrightarrow> fst (instances_loop_obj e pool 0 n (a, b)) = Some TypeError)
   \<and> (n \<le> length pool \<longrightarrow> fst (instances_loop_obj e pool 0 n (a, b)) = None)"
proof (intro conjI impI)
  assume h: "targetObject s = Some obj \<and> length (sample_pool obj) < instances_obj"
  then show "fst (objectInit_obj e s) = Some TypeError"
    and "scene_children (snd (objectInit_obj e s)) = scene_children s"
    using objectInit_obj_short_pool [of s obj e] by simp_all
  show "js_index (sample_pool obj) (length (sample_pool obj)) = None"
    by (simp add: js_index_def)
next
  assume "length pool \<le> i"
  then show "instance_obj e pool i st = (Some TypeError, st)"
    by (simp add: instance_obj_fail)
next
  assume "length pool < n"
  then show "fst (instances_loop_obj e pool 0 n (a, b)) = Some TypeError"
    by (rule instances_loop_obj_fails)
next
  assume "n \<le> length pool"
  from instances_loop_obj_ok [OF this, of 0 n e a b]
  show "fst (instances_loop_obj e pool 0 n (a, b)) = None" by simp
qed

theorem short_pool_raises_witness:
  "length (sample_pool small_model) < instances_obj
   \<and> fst (objectInit_obj example_env (loaded_state small_model)) = Some TypeError
   \<and> scene_children (snd (objectInit_obj example_env (loaded_state small_model))) =
       scene_children (loaded_state small_model)
   \<and> instance_obj example_env [Point (Num 1) (Num 2) (Num 3)] 1 (empty_arrays, 4) =
       (Some TypeError, empty_arrays, 4)
   \<and> fst (instances_loop_obj example_env [Point (Num 1) (Num 2) (Num 3)] 0 2 (empty_arrays, 0)) =
       Some TypeError
   \<and> fst (instances_loop_obj example_env [Point (Num 1) (Num 2) (Num 3)] 0 1 (empty_arrays, 0)) =
       None"
  using short_pool_raises [of "loaded_state small_model"
      "small_model\<lparr>scale := Vector3 0.02 0.02 0.02\<rparr>" example_env
      "[Point (Num 1) (Num 2) (Num 3)]" 1 "(empty_arrays, 4)" 2 empty_arrays 0]
    short_pool_raises [of "loaded_state small_model"
      "small_model\<lparr>scale := Vector3 0.02 0.02 0.02\<rparr>" example_env
      "[Point (Num 1) (Num 2) (Num 3)]" 1 "(empty_arrays, 4)" 1 empty_arrays 0]
  by (simp add: loaded_state_fields small_pool instances_positive)

subsection \<open>The geometries of the scene\<close>

lemma objectInit_obj_children:
  "\<exists>ns. scene_children (snd (objectInit_obj e s)) = scene_children s @ ns"
  by (auto simp: objectInit_obj_def Let_def scene_add_def split: option.splits prod.splits)

lemma objectInit_tri_children:
  "\<exists>ns. scene_children (snd (objectInit_tri e s)) = scene_children s @ ns"
  by (auto simp: objectInit_tri_def Let_def scene_add_def console_log_def
      split: option.splits prod.splits)

lemma node_geometry_rotation [simp]: "node_geometry (n\<lparr>rotation_y := r\<rparr>) = node_geometry n"
  by (simp add: node_geometry_def)

lemma update_tri_geometries:
  "scene_geometries (snd (update_tri e t s)) = scene_geometries s"
proof (cases "3 < length (scene_children s)")
  case False
  then show ?thesis
    by (simp add: update_tri_def js_index_def scene_geometries_def)
next
  case True
  let ?n = "scene_children s ! 3"
  have a: "map node_geometry ((scene_children s)[3 := ?n\<lparr>rotation_y := r\<rparr>]) =
      map node_geometry (scene_children s)" for r
    using True by (simp add: map_update list_update_same_conv)
  have b: "kind ?n = Mesh g m \<Longrightarrow>
      map node_geometry ((scene_children s)[3 := ?n\<lparr>rotation_y := r, kind := Mesh g m'\<rparr>]) =
      map node_geometry (scene_children s)" for r g m m'
    using True by (simp add: map_update list_update_same_conv node_geometry_def)
  from True a b show ?thesis
    by (cases "kind ?n") (simp_all add: update_tri_def js_index_def Let_def scene_geometries_def)
qed

lemma update_geometries:
  "scene_geometries (snd (update var e t s)) = scene_geometries s"
proof (cases var)
  case ObjVariant
  then show ?thesis by (simp add: update_def update_obj_def scene_geometries_def)
next
  case TriangleVariant
  then show ?thesis by (simp add: update_def update_tri_geometries)
qed

lemma dispatch_geometries:
  "\<exists>gs. scene_geometries (dispatch var e ev s) = scene_geometries s @ gs"
proof (cases ev)
  case (AnimationFrame t)
  then show ?thesis
    using update_geometries [of var e t "s\<lparr>animation_requests := animation_requests s - 1\<rparr>"]
    by (simp add: scene_geometries_def)
next
  case (AssetsResolved v)
  show ?thesis
  proof (cases var)
    case ObjVariant
    with AssetsResolved show ?thesis
      by (simp add: onAssetsLoaded_def onAssetsLoaded_obj_def loadObj_def console_log_def
          scene_geometries_def)
  next
    case TriangleVariant
    obtain ns where "scene_children (snd (objectInit_tri e
        (console_log (''assets loaded '' @ v) (s\<lparr>assets_pending := False\<rparr>)))) =
        scene_children s @ ns"
      using objectInit_tri_children [of e "console_log (''assets loaded '' @ v) (s\<lparr>assets_pending := False\<rparr>)"]
      by (auto simp: console_log_def)
    with AssetsResolved TriangleVariant show ?thesis
      by (cases "objectInit_tri e (console_log (''assets loaded '' @ v) (s\<lparr>assets_pending := False\<rparr>))")
        (auto simp: onAssetsLoaded_def onAssetsLoaded_tri_def scene_geometries_def
          onAssetsError_def console_warn_def split: option.splits)
  qed
next
  case (ObjLoaded object)
  let ?s2 = "scene_add \<lparr>kind = TargetObject, rotation_y = 0\<rparr>
      (s\<lparr>obj_pending := False, targetObject := Some (object\<lparr>scale := Vector3 0.02 0.02 0.02\<rparr>)\<rparr>)"
  obtain ns where "scene_children (snd (objectInit_obj e ?s2)) = scene_children ?s2 @ ns"
    using objectInit_obj_children by blast
  with ObjLoaded show ?thesis
    by (simp add: onObjLoaded_def Let_def scene_geometries_def scene_add_def)
qed (simp_all add: scene_geometries_def onAssetsError_def console_warn_def console_log_def)

lemma run_geometries:
  "\<exists>gs. scene_geometries (run var e evs s) = scene_geometries s @ gs"
proof (induction evs arbitrary: s)
  case Nil
  then show ?case by simp
next
  case (Cons ev evs)
  from dispatch_geometries [of var e ev s] obtain gs
    where d: "scene_geometries (dispatch var e ev s) = scene_geometries s @ gs" by blast
  from Cons.IH [of "dispatch var e ev s"] obtain gs'
    where "scene_geometries (run var e evs (dispatch var e ev s)) =
      scene_geometries (dispatch var e ev s) @ gs'" by blast
  with d show ?case by simp
qed

lemma geometries_kept:
  "take (length (scene_children s)) (scene_geometries (run var e evs s)) = scene_geometries s"
proof -
  from run_geometries [of var e evs s] obtain gs
    where "scene_geometries (run var e evs s) = scene_geometries s @ gs" by blast
  moreover have "length (scene_geometries s) = length (scene_children s)"
    by (simp add: scene_geometries_def)
  ultimately show ?thesis by simp
qed

subsection \<open>Orientations\<close>

lemma half_components:
  "vector_components (Vector4_normalize (Vector4 0.5 0.5 0.5 0.5)) = [1 / 2, 1 / 2, 1 / 2, 1 / 2]"
  using normalize_half by (simp add: vector_components_def)

lemma normalize_minus_one:
  "vector_components (Vector4_normalize (Vector4 (- 1) (- 1) (- 1) (- 1))) =
     [- 1 / 2, - 1 / 2, - 1 / 2, - 1 / 2]"
proof -
  have "Vector4_length (Vector4 (- 1) (- 1) (- 1) (- 1)) = 2"
    by (simp add: Vector4_length_def)
  then show ?thesis
    by (simp add: Vector4_normalize_def Let_def Vector4_multiplyScalar_def vector_components_def)
qed

lemma stored_half:
  "Float32Array (map Num [1 / 2, 1 / 2, 1 / 2, 1 / 2]) =
     [Num (1 / 2), Num (1 / 2), Num (1 / 2), Num (1 / 2)]"
  "Float32Array (map Num [- 1 / 2, - 1 / 2, - 1 / 2, - 1 / 2]) =
     [Num (- 1 / 2), Num (- 1 / 2), Num (- 1 / 2), Num (- 1 / 2)]"
  by (simp_all add: fround_values)

text \<open>
  C8, as amended. In the variant that samples the reference model, for every instance
  the start and the end orientation are the same constant, the normalisation of
  (0.5, 0.5, 0.5, 0.5), which has length 1 and is (0.5, 0.5, 0.5, 0.5) itself; single
  precision stores it exactly. In the triangle variant they are the normalisations of
  two vectors of four random numbers each, scaled to [-1, 1), as single precision
  stores them. In both variants the geometry of every mesh of the scene, and so its
  orientation arrays, stays what it was at build time, whatever events follow.
\<close>

theorem orientation_quaternions:
  "(fst (objectInit_obj e s) = None \<and> i < instances_obj \<longrightarrow>
      field_orientationStart (snd (objectInit_obj e s)) i =
        [Num (1 / 2), Num (1 / 2), Num (1 / 2), Num (1 / 2)]
    \<and> field_orientationEnd (snd (objectInit_obj e s)) i =
        [Num (1 / 2), Num (1 / 2), Num (1 / 2), Num (1 / 2)])
   \<and> vector_components (Vector4_normalize (Vector4 0.5 0.5 0.5 0.5)) = [1 / 2, 1 / 2, 1 / 2, 1 / 2]
   \<and> Vector4_length (Vector4 0.5 0.5 0.5 0.5) = 1
   \<and> Float32Array (map Num (vector_components (Vector4_normalize (Vector4 0.5 0.5 0.5 0.5)))) =
        [Num (1 / 2), Num (1 / 2), Num (1 / 2), Num (1 / 2)]
   \<and> (fst (objectInit_tri e t) = None \<and> j < instances_tri \<longrightarrow>
      field_orientationStart (snd (objectInit_tri e t)) j =
        Float32Array (map Num (vector_components (Vector4_normalize
          (Vector4 (Math_random e (random_calls t + 15 * j + 7) * 2 - 1)
             (Math_random e (random_calls t + 15 * j + 8) * 2 - 1)
             (Math_random e (random_calls t + 15 * j + 9) * 2 - 1)
             (Math_random e (random_calls t + 15 * j + 10) * 2 - 1)))))
    \<and> field_orientationEnd (snd (objectInit_tri e t)) j =
        Float32Array (map Num (vector_components (Vector4_normalize
          (Vector4 (Math_random e (random_calls t + 15 * j + 11) * 2 - 1)
             (Math_random e (random_calls t + 15 * j + 12) * 2 - 1)
             (Math_random e (random_calls t + 15 * j + 13) * 2 - 1)
             (Math_random e (random_calls t + 15 * j + 14) * 2 - 1))))))
   \<and> take (length (scene_children u)) (scene_geometries (run var e evs u)) = scene_geometries u"
proof (intro conjI impI)
  assume h: "fst (objectInit_obj e s) = None \<and> i < instances_obj"
  with objectInit_obj_None [of e s] obtain obj vs fs
    where c: "targetObject s = Some obj" "instances_obj \<le> length (sample_pool obj)"
      "vertexShader_element e = Some vs" "fragmentShader_element e = Some fs" "i < instances_obj"
    by auto
  note f = field_obj [OF c]
  show "field_orientationStart (snd (objectInit_obj e s)) i =
        [Num (1 / 2), Num (1 / 2), Num (1 / 2), Num (1 / 2)]"
    by (simp only: f half_quaternion_def stored_half)
  show "field_orientationEnd (snd (objectInit_obj e s)) i =
        [Num (1 / 2), Num (1 / 2), Num (1 / 2), Num (1 / 2)]"
    by (simp only: f half_quaternion_def stored_half)
next
  assume h: "fst (objectInit_tri e t) = None \<and> j < instances_tri"
  with objectInit_tri_None [of e t] obtain vs fs
    where c: "vertexShader_element e = Some vs" "fragmentShader_element e = Some fs" "j < instances_tri"
    by auto
  note f = field_tri [OF c]
  show "field_orientationStart (snd (objectInit_tri e t)) j =
        Float32Array (map Num (vector_components (Vector4_normalize
          (Vector4 (Math_random e (random_calls t + 15 * j + 7) * 2 - 1)
             (Math_random e (random_calls t + 15 * j + 8) * 2 - 1)
             (Math_random e (random_calls t + 15 * j + 9) * 2 - 1)
             (Math_random e (random_calls t + 15 * j + 10) * 2 - 1)))))"
    by (simp only: f tri_start_def)
  show "field_orientationEnd (snd (objectInit_tri e t)) j =
        Float32Array (map Num (vector_components (Vector4_normalize
          (Vector4 (Math_random e (random_calls t + 15 * j + 11) * 2 - 1)
             (Math_random e (random_calls t + 15 * j + 12) * 2 - 1)
             (Math_random e (random_calls t + 15 * j + 13) * 2 - 1)
             (Math_random e (random_calls t + 15 * j + 14) * 2 - 1)))))"
    by (simp only: f tri_end_def)
next
  show "Float32Array (map Num (vector_components (Vector4_normalize (Vector4 0.5 0.5 0.5 0.5)))) =
        [Num (1 / 2), Num (1 / 2), Num (1 / 2), Num (1 / 2)]"
    by (simp only: half_components stored_half)
qed (use half_components normalize_half in \<open>simp_all add: geometries_kept\<close>)

theorem orientation_quaternions_witness:
  "fst (objectInit_obj example_env (loaded_state example_model)) = None
   \<and> field_orientationStart (snd (objectInit_obj example_env (loaded_state example_model))) 0 =
       [Num (1 / 2), Num (1 / 2), Num (1 / 2), Num (1 / 2)]
   \<and> field_orientationEnd (snd (objectInit_obj example_env (loaded_state example_model))) 0 =
       [Num (1 / 2), Num (1 / 2), Num (1 / 2), Num (1 / 2)]
   \<and> fst (objectInit_tri example_env (before_first_frame example_env 800 600)) = None
   \<and> field_orientationStart
       (snd (objectInit_tri example_env (before_first_frame example_env 800 600))) 0 =
       [Num (- 1 / 2), Num (- 1 / 2), Num (- 1 / 2), Num (- 1 / 2)]
   \<and> field_orientationEnd
       (snd (objectInit_tri example_env (before_first_frame example_env 800 600))) 0 =
       [Num (- 1 / 2), Num (- 1 / 2), Num (- 1 / 2), Num (- 1 / 2)]"
  using orientation_quaternions [of example_env "loaded_state example_model" 0
      "before_first_frame example_env 800 600" 0] example_success normalize_minus_one
  by (simp add: instances_positive example_env_fields(4) fround_values)

text \<open>
  C8 as stated fails in the triangle variant: with a random source that returns 0 both
  orientations of instance 0 are (-0.5, -0.5, -0.5, -0.5), not (0.5, 0.5, 0.5, 0.5).
\<close>

theorem triangle_orientations_random:
  "fst (objectInit_tri example_env (before_first_frame example_env 800 600)) = None
   \<and> field_orientationStart
       (snd (objectInit_tri example_env (before_first_frame example_env 800 600))) 0 =
       [Num (- 1 / 2), Num (- 1 / 2), Num (- 1 / 2), Num (- 1 / 2)]
   \<and> field_orientationEnd
       (snd (objectInit_tri example_env (before_first_frame example_env 800 600))) 0 =
       [Num (- 1 / 2), Num (- 1 / 2), Num (- 1 / 2), Num (- 1 / 2)]"
proof -
  let ?t = "before_first_frame example_env 800 600"
  note f = field_tri [OF example_env_fields(1,2) instances_positive(2), of ?t]
  show ?thesis
    using normalize_minus_one
    by (simp add: f example_success tri_start_def tri_end_def example_env_fields(4)
        fround_values)
qed

text \<open>
  The three cases of C9 at concrete scenes: three children, the particle mesh as
  fourth child, and a second light as fourth child.
\<close>

theorem update_tri_positional_witness:
  "length (scene_children (before_first_frame example_env 800 600)) < 4
   \<and> update_tri example_env 16 (before_first_frame example_env 800 600) =
       (Some TypeError, update_head example_env (before_first_frame example_env 800 600))
   \<and> fst (update_tri example_env 16
        (snd (objectInit_tri example_env (before_first_frame example_env 800 600)))) = None
   \<and> fst (update_tri example_env 16
        (before_first_frame (example_env\<lparr>lights := [''ambient'', ''directional'']\<rparr>) 800 600)) =
       Some TypeError"
proof -
  let ?s = "before_first_frame example_env 800 600"
  let ?m = "snd (objectInit_tri example_env ?s)"
  let ?l = "before_first_frame (example_env\<lparr>lights := [''ambient'', ''directional'']\<rparr>) 800 600"
  let ?g = "tri_geometry example_env 0"
  let ?p = "particle_material ''vertex'' ''fragment'' True"
  have len: "length (scene_children ?s) < 4"
    by (simp add: example_before_first_frame)
  have m: "js_index (scene_children ?m) 3 = Some (new_Mesh ?g ?p) \<and> kind (new_Mesh ?g ?p) = Mesh ?g ?p"
    by (simp add: objectInit_tri_eq [OF example_env_fields(1,2)] console_log_def scene_add_def
        example_before_first_frame js_index_def new_Mesh_def)
  have l: "js_index (scene_children ?l) 3 = Some \<lparr>kind = Light ''directional'', rotation_y = 0\<rparr>
      \<and> \<not> is_mesh (kind \<lparr>kind = Light ''directional'', rotation_y = 0\<rparr>)"
    by (simp add: before_first_frame_def Let_def add_lights_eq add_helpers_def scene_add_def
        page_def example_env_def js_index_def)
  from update_tri_positional [of ?s example_env 16] len
  have a: "update_tri example_env 16 ?s = (Some TypeError, update_head example_env ?s)"
    by blast
  from update_tri_positional [of ?m example_env 16] m
  have b: "fst (update_tri example_env 16 ?m) = None"
    by (metis fst_conv)
  from update_tri_positional [of ?l example_env 16] l
  have c: "fst (update_tri example_env 16 ?l) = Some TypeError"
    by (metis fst_conv)
  from len a b c show ?thesis by blast
qed

end
